theory Spec2Isabelle
  imports Main "HOL-Library.Multiset"
begin

section \<open>Errors\<close>

text \<open>
  The error values of the code: \<^verbatim>\<open>errors.Errorf(operation, retriable, message)\<close> of
  npm/util/errors, the wrapping \<^verbatim>\<open>fmt.Errorf("prefix: %w", err)\<close>, and an error handed
  back by the external programming backend. Go's \<^verbatim>\<open>nil\<close> error is \<open>None\<close>.
\<close>

datatype ErrorOp = Op_CreateIPSet | Op_AppendIPSet | Op_DeleteIPSet

datatype error =
    Errorf ErrorOp bool string
  | Wrap string error
  | BackendError string

section \<open>IP sets (package ipsets)\<close>

subsection \<open>Data\<close>

text \<open>
  The set types that the sources name (\<^verbatim>\<open>api.SetType_Unknown\<close> in AddToSet, the others in
  the tests), and the kinds that the switch of getSetCache tells apart: ListSet, HashSet
  and everything else (its \<^verbatim>\<open>default\<close> branch).
\<close>

datatype SetType =
  SetType_Unknown | NameSpace | KeyLabelOfNameSpace | KeyLabelOfPod | KeyValueLabelOfPod

datatype SetKind = ListSet | HashSet | UnknownKind

text \<open>
  The caches hold pointers (\<^verbatim>\<open>map[string]*api.IPSet\<close>), a list holds pointers to its
  members, and AddToList compares pointers, so sets live in a store and are named by
  address. Of \<^verbatim>\<open>api.IPSet\<close> the fields that the code reads and writes.
\<close>

type_synonym addr = nat

record api_IPSet =
  Name :: string
  Type :: SetType
  IpPodKey :: "string \<rightharpoonup> string"
  IPSet :: "string \<rightharpoonup> addr"

text \<open>IPSetMap embeds a \<^verbatim>\<open>sync.Mutex\<close>: \<open>locked\<close> is whether it is held.\<close>

record IPSetMap =
  cache :: "string \<rightharpoonup> addr"
  locked :: bool

record IPSetManager =
  listMap :: IPSetMap
  setMap :: IPSetMap
  os :: string

text \<open>
  Modelled from the spec: package metrics is not in the sources. The spec has a counter
  of set entries and a per-set inventory size, incremented and decremented on membership
  change.
\<close>

record Metrics =
  NumIPSetEntries :: int
  IPSetInventory :: "string \<Rightarrow> int"

record state =
  heap :: "addr \<Rightarrow> api_IPSet"
  nextFree :: addr
  mgr :: IPSetManager
  metrics :: Metrics

text \<open>
  A call either returns a value and leaves a state, or never returns: \<^verbatim>\<open>Lock()\<close> on
  a mutex that the running call already holds blocks for ever.
\<close>

datatype 'r outcome = Return 'r state | Blocked

text \<open>
  What the code takes from outside the sources, as parameters: the table from set types
  to kinds that getSetKind reads, and whether \<^verbatim>\<open>net.ParseIP(ip).To4()\<close> of Go's
  standard library is not nil.
\<close>

record externals =
  kindOf :: "SetType \<Rightarrow> SetKind"
  To4 :: "string \<Rightarrow> bool"

text \<open>
  Modelled from the spec: getSetKind is not in the sources. The spec says that the kind
  of a set is the kind implied by its type, and that a type may map to neither hash nor
  list.
\<close>

definition getSetKind :: "externals \<Rightarrow> api_IPSet \<Rightarrow> SetKind" where
  "getSetKind x setp = kindOf x (Type setp)"

subsection \<open>The two caches and their locks\<close>

datatype which = ListCache | SetCache

definition getMap :: "which \<Rightarrow> state \<Rightarrow> IPSetMap" where
  "getMap m st = (case m of ListCache \<Rightarrow> listMap (mgr st) | SetCache \<Rightarrow> setMap (mgr st))"

definition putMap :: "which \<Rightarrow> IPSetMap \<Rightarrow> state \<Rightarrow> state" where
  "putMap m v st =
     (case m of
        ListCache \<Rightarrow> st\<lparr>mgr := (mgr st)\<lparr>listMap := v\<rparr>\<rparr>
      | SetCache \<Rightarrow> st\<lparr>mgr := (mgr st)\<lparr>setMap := v\<rparr>\<rparr>)"

definition Lock :: "which \<Rightarrow> state \<Rightarrow> state option" where
  "Lock m st =
     (if locked (getMap m st) then None
      else Some (putMap m ((getMap m st)\<lparr>locked := True\<rparr>) st))"

definition Unlock :: "which \<Rightarrow> state \<Rightarrow> state" where
  "Unlock m st = putMap m ((getMap m st)\<lparr>locked := False\<rparr>) st"

text \<open>\<^verbatim>\<open>m.Lock(); defer m.Unlock(); body\<close>\<close>

definition locking :: "which \<Rightarrow> (state \<Rightarrow> 'r outcome) \<Rightarrow> state \<Rightarrow> 'r outcome" where
  "locking m body st =
     (case Lock m st of
        None \<Rightarrow> Blocked
      | Some st1 \<Rightarrow>
          (case body st1 of
             Blocked \<Rightarrow> Blocked
           | Return r st2 \<Rightarrow> Return r (Unlock m st2)))"

definition newIPSetMap :: IPSetMap where
  "newIPSetMap = \<lparr>cache = Map.empty, locked = False\<rparr>"

definition exists :: "IPSetMap \<Rightarrow> string \<Rightarrow> bool" where
  "exists m name = (cache m name \<noteq> None)"

definition NewIPSetManager :: IPSetManager where
  "NewIPSetManager = \<lparr>listMap = newIPSetMap, setMap = newIPSetMap, os = ''linux''\<rparr>"

definition getSetCache :: "externals \<Rightarrow> state \<Rightarrow> addr \<Rightarrow> error + which" where
  "getSetCache x st setp =
     (case getSetKind x (heap st setp) of
        ListSet \<Rightarrow> Inr ListCache
      | HashSet \<Rightarrow> Inr SetCache
      | UnknownKind \<Rightarrow> Inl (Errorf Op_CreateIPSet False ''unknown Set kind''))"

subsection \<open>Helpers that are not in the sources\<close>

text \<open>
  Modelled from the spec: NewIPSet is not in the sources. The spec says that a new IPSet
  of the given name and type is allocated; it has no members yet.
\<close>

definition NewIPSet :: "state \<Rightarrow> string \<Rightarrow> SetType \<Rightarrow> addr \<times> state" where
  "NewIPSet st name t =
     (nextFree st,
      st\<lparr>heap := (heap st)(nextFree st :=
              \<lparr>Name = name, Type = t, IpPodKey = Map.empty, IPSet = Map.empty\<rparr>),
         nextFree := Suc (nextFree st)\<rparr>)"

text \<open>
  Modelled from the spec: the metrics calls
  \<^verbatim>\<open>metrics.NumIPSetEntries.Inc()\<close>, \<^verbatim>\<open>metrics.IncIPSetInventory(setName)\<close> and their
  decrementing counterparts.
\<close>

definition metricsInc :: "string \<Rightarrow> state \<Rightarrow> state" where
  "metricsInc setName st =
     st\<lparr>metrics := \<lparr>NumIPSetEntries = NumIPSetEntries (metrics st) + 1,
                     IPSetInventory = (IPSetInventory (metrics st))
                       (setName := IPSetInventory (metrics st) setName + 1)\<rparr>\<rparr>"

definition metricsDec :: "string \<Rightarrow> state \<Rightarrow> state" where
  "metricsDec setName st =
     st\<lparr>metrics := \<lparr>NumIPSetEntries = NumIPSetEntries (metrics st) - 1,
                     IPSetInventory = (IPSetInventory (metrics st))
                       (setName := IPSetInventory (metrics st) setName - 1)\<rparr>\<rparr>"

subsection \<open>IPSetManager operations\<close>

definition CreateIPSet :: "externals \<Rightarrow> state \<Rightarrow> addr \<Rightarrow> error option outcome" where
  "CreateIPSet x st setp =
     (case getSetCache x st setp of
        Inl err \<Rightarrow> Return (Some err) st
      | Inr m \<Rightarrow>
          locking m
            (\<lambda>s. if exists (getMap m s) (Name (heap s setp)) then Return None s
                 else Return None
                   (putMap m ((getMap m s)\<lparr>cache := (cache (getMap m s))
                       (Name (heap s setp) \<mapsto> setp)\<rparr>) s))
            st)"

text \<open>Lines 104 to 129 of AddToSet: what it does with the set once it has one.\<close>

definition AddToSet_entry ::
  "externals \<Rightarrow> state \<Rightarrow> addr \<Rightarrow> string \<Rightarrow> string \<Rightarrow> string \<Rightarrow> error option outcome" where
  "AddToSet_entry x s setp setName ip podKey =
     (if getSetKind x (heap s setp) \<noteq> HashSet then
        Return (Some (Errorf Op_AppendIPSet False (''ipset '' @ setName @ '' is not a hash set''))) s
      else
        (case IpPodKey (heap s setp) ip of
           Some cachedPodKey \<Rightarrow>
             (if cachedPodKey \<noteq> podKey then
                Return None
                  (s\<lparr>heap := (heap s)(setp := (heap s setp)
                      \<lparr>IpPodKey := (IpPodKey (heap s setp))(ip \<mapsto> podKey)\<rparr>)\<rparr>)
              else Return None s)
         | None \<Rightarrow>
             Return None
               (metricsInc setName
                 (s\<lparr>heap := (heap s)(setp := (heap s setp)
                     \<lparr>IpPodKey := (IpPodKey (heap s setp))(ip \<mapsto> podKey)\<rparr>)\<rparr>))))"

definition AddToSet ::
  "externals \<Rightarrow> state \<Rightarrow> string \<Rightarrow> string \<Rightarrow> string \<Rightarrow> error option outcome" where
  "AddToSet x st setName ip podKey =
     (if \<not> To4 x ip then Return (Some (Errorf Op_AppendIPSet False ''IPV6 not supported'')) st
      else
        locking SetCache
          (\<lambda>s. case cache (setMap (mgr s)) setName of
                  Some setp \<Rightarrow> AddToSet_entry x s setp setName ip podKey
                | None \<Rightarrow>
                    (case NewIPSet s setName SetType_Unknown of
                       (setp, s1) \<Rightarrow>
                         (case CreateIPSet x s1 setp of
                            Blocked \<Rightarrow> Blocked
                          | Return (Some err) s2 \<Rightarrow> Return (Some err) s2
                          | Return None s2 \<Rightarrow> AddToSet_entry x s2 setp setName ip podKey)))
          st)"

definition DeleteFromSet ::
  "externals \<Rightarrow> state \<Rightarrow> string \<Rightarrow> string \<Rightarrow> string \<Rightarrow> error option outcome" where
  "DeleteFromSet x st setName ip podKey =
     locking SetCache
       (\<lambda>s. case cache (setMap (mgr s)) setName of
               None \<Rightarrow>
                 Return (Some (Errorf Op_DeleteIPSet False
                   (''ipset '' @ setName @ '' does not exist''))) s
             | Some setp \<Rightarrow>
                 (if getSetKind x (heap s setp) \<noteq> HashSet then
                    Return (Some (Errorf Op_DeleteIPSet False
                      (''ipset '' @ setName @ '' is not a hash set''))) s
                  else
                    (let cachedPodKey =
                           (case IpPodKey (heap s setp) ip of None \<Rightarrow> [] | Some k \<Rightarrow> k)
                     in if cachedPodKey \<noteq> podKey then Return None s
                        else Return None
                          (metricsDec setName
                            (s\<lparr>heap := (heap s)(setp := (heap s setp)
                                \<lparr>IpPodKey := (IpPodKey (heap s setp))(ip := None)\<rparr>)\<rparr>)))))
       st"

definition AddToList ::
  "externals \<Rightarrow> state \<Rightarrow> string \<Rightarrow> string \<Rightarrow> error option outcome" where
  "AddToList x st listName setName =
     (if listName = setName then
        Return (Some (Errorf Op_AppendIPSet False
          (''list '' @ listName @ '' cannot be added to itself''))) st
      else
        locking ListCache
          (\<lambda>s. case cache (setMap (mgr s)) setName of
                  None \<Rightarrow>
                    Return (Some (Errorf Op_AppendIPSet False
                      (''member ipset '' @ setName @ '' does not exist''))) s
                | Some setp \<Rightarrow>
                    (if getSetKind x (heap s setp) \<noteq> HashSet \<and> os (mgr s) \<noteq> ''windows'' then
                       Return (Some (Errorf Op_DeleteIPSet False
                         (''member ipset '' @ setName @
                          '' is not a Set type and nestetd ipsets are not supported''))) s
                     else
                       (case cache (listMap (mgr s)) listName of
                          None \<Rightarrow>
                            Return (Some (Errorf Op_AppendIPSet False
                              (''ipset '' @ listName @ '' does not exist''))) s
                        | Some listp \<Rightarrow>
                            (if getSetKind x (heap s listp) \<noteq> ListSet then
                               Return (Some (Errorf Op_AppendIPSet False
                                 (''ipset '' @ listName @ '' is not a list set''))) s
                             else
                               (case IPSet (heap s listp) setName of
                                  Some listSet \<Rightarrow>
                                    (if listSet = setp then Return None s
                                     else Return None
                                       (s\<lparr>heap := (heap s)(listp := (heap s listp)
                                           \<lparr>IPSet := (IPSet (heap s listp))(setName \<mapsto> setp)\<rparr>)\<rparr>))
                                | None \<Rightarrow>
                                    Return None
                                      (metricsInc setName
                                        (s\<lparr>heap := (heap s)(listp := (heap s listp)
                                            \<lparr>IPSet := (IPSet (heap s listp))(setName \<mapsto> setp)\<rparr>)\<rparr>)))))))
          st)"

definition DeleteFromList ::
  "externals \<Rightarrow> state \<Rightarrow> string \<Rightarrow> string \<Rightarrow> error option outcome" where
  "DeleteFromList x st listName setName =
     locking ListCache
       (\<lambda>s. case cache (setMap (mgr s)) setName of
               None \<Rightarrow>
                 Return (Some (Errorf Op_DeleteIPSet False
                   (''ipset '' @ setName @ '' does not exist''))) s
             | Some setp \<Rightarrow>
                 (if getSetKind x (heap s setp) \<noteq> HashSet then
                    Return (Some (Errorf Op_DeleteIPSet False
                      (''ipset '' @ setName @ '' is not a hash set''))) s
                  else if getSetKind x (heap s setp) \<noteq> HashSet \<and> os (mgr s) \<noteq> ''windows'' then
                    Return (Some (Errorf Op_DeleteIPSet False
                      (''member ipset '' @ setName @
                       '' is not a Set type and nestetd ipsets are not supported''))) s
                  else
                    (case cache (listMap (mgr s)) listName of
                       None \<Rightarrow>
                         Return (Some (Errorf Op_DeleteIPSet False
                           (''ipset '' @ listName @ '' does not exist''))) s
                     | Some listp \<Rightarrow>
                         (if getSetKind x (heap s listp) \<noteq> ListSet then
                            Return (Some (Errorf Op_DeleteIPSet False
                              (''ipset '' @ listName @ '' is not a list set''))) s
                          else
                            (case IPSet (heap s listp) setName of
                               None \<Rightarrow> Return None s
                             | Some _ \<Rightarrow> Return None s)))))
       st"

definition DeleteList :: "state \<Rightarrow> string \<Rightarrow> unit outcome" where
  "DeleteList st name =
     locking ListCache
       (\<lambda>s. Return ()
          (s\<lparr>mgr := (mgr s)\<lparr>listMap := (listMap (mgr s))
              \<lparr>cache := (cache (listMap (mgr s)))(name := None)\<rparr>\<rparr>\<rparr>))
       st"

definition DeleteSet :: "state \<Rightarrow> string \<Rightarrow> unit outcome" where
  "DeleteSet st name =
     locking SetCache
       (\<lambda>s. Return ()
          (s\<lparr>mgr := (mgr s)\<lparr>setMap := (setMap (mgr s))
              \<lparr>cache := (cache (setMap (mgr s)))(name := None)\<rparr>\<rparr>\<rparr>))
       st"

definition Clear :: "state \<Rightarrow> unit outcome" where
  "Clear st =
     locking ListCache
       (\<lambda>s. locking SetCache
          (\<lambda>s1. Return ()
             (s1\<lparr>mgr := (mgr s1)\<lparr>setMap := (setMap (mgr s1))\<lparr>cache := Map.empty\<rparr>\<rparr>\<rparr>))
          (s\<lparr>mgr := (mgr s)\<lparr>listMap := (listMap (mgr s))\<lparr>cache := Map.empty\<rparr>\<rparr>\<rparr>))
       st"

subsection \<open>Operations by set name that are not in the sources\<close>

text \<open>
  Modelled from the spec: the tests and DataPlane call CreateIPSet with a name and a type
  and AddToSet with a list of set names; the sources hold the versions above, which take
  a set object and one set name. The spec: CreateIPSet(name, type) allocates a new IPSet
  of the kind implied by the type and inserts it if absent; AddToSet(setNames, ip, podKey)
  does for every named set what AddToSet does for one. The first error ends the loop.
\<close>

definition CreateIPSet_named ::
  "externals \<Rightarrow> state \<Rightarrow> string \<Rightarrow> SetType \<Rightarrow> error option outcome" where
  "CreateIPSet_named x st name t =
     (case NewIPSet st name t of (setp, st1) \<Rightarrow> CreateIPSet x st1 setp)"

text \<open>
  Modelled from the spec: AddToSet(setNames, ip, podKey), the loop over the names with
  the AddToSet of the sources as its body.
\<close>

fun AddToSets ::
  "externals \<Rightarrow> state \<Rightarrow> string list \<Rightarrow> string \<Rightarrow> string \<Rightarrow> error option outcome" where
  "AddToSets x st [] ip podKey = Return None st"
| "AddToSets x st (setName # setNames) ip podKey =
     (case AddToSet x st setName ip podKey of
        Blocked \<Rightarrow> Blocked
      | Return (Some err) st1 \<Rightarrow> Return (Some err) st1
      | Return None st1 \<Rightarrow> AddToSets x st1 setNames ip podKey)"

text \<open>
  Modelled from the spec: GetIPsFromSelectorIPSets is not in the sources (only its test
  is). The spec: it computes the intersection of IP membership across the named HashSets,
  and fails with SetNotFound or WrongKind for a name that is absent or not a HashSet.
  The intersection is accumulated set by set, starting from the first one; for no names
  at all the result is the empty set.
\<close>

datatype SelectorError = SetNotFound string | WrongKind string

text \<open>
  Modelled from the spec: the membership of one named set, or the failure for a name that
  is absent or not a HashSet.
\<close>

definition selectorIPs :: "externals \<Rightarrow> state \<Rightarrow> string \<Rightarrow> SelectorError + string set" where
  "selectorIPs x st setName =
     (case cache (setMap (mgr st)) setName of
        None \<Rightarrow> Inl (SetNotFound setName)
      | Some setp \<Rightarrow>
          (if getSetKind x (heap st setp) \<noteq> HashSet then Inl (WrongKind setName)
           else Inr (dom (IpPodKey (heap st setp)))))"

text \<open>Modelled from the spec: the intersection, accumulated over the remaining names.\<close>

fun intersectSets ::
  "externals \<Rightarrow> state \<Rightarrow> string list \<Rightarrow> string set \<Rightarrow> SelectorError + string set" where
  "intersectSets x st [] acc = Inr acc"
| "intersectSets x st (setName # setNames) acc =
     (case selectorIPs x st setName of
        Inl err \<Rightarrow> Inl err
      | Inr ips \<Rightarrow> intersectSets x st setNames (acc \<inter> ips))"

text \<open>
  Modelled from the spec: GetIPsFromSelectorIPSets(setNames), the intersection of IP
  membership across the named HashSets.
\<close>

definition GetIPsFromSelectorIPSets ::
  "externals \<Rightarrow> state \<Rightarrow> string list \<Rightarrow> SelectorError + string set" where
  "GetIPsFromSelectorIPSets x st setNames =
     (case setNames of
        [] \<Rightarrow> Inr {}
      | setName # rest \<Rightarrow>
          (case selectorIPs x st setName of
             Inl err \<Rightarrow> Inl err
           | Inr ips \<Rightarrow> intersectSets x st rest ips))"

subsection \<open>A concrete setting for the examples\<close>

text \<open>
  The kinds of the set types as the tests use them (AddToSet succeeds on a NameSpace set,
  AddToList on a KeyLabelOfNameSpace list with a NameSpace member), and a recogniser of
  dotted IPv4 addresses: four decimal fields of one to three digits, each at most 255 and
  with no leading zero. It stands for the parameter \<open>To4\<close> in the examples only; the
  other spellings that Go's parser takes for an IPv4 address (an IPv4-mapped IPv6 address)
  are outside it.
\<close>

fun stdKindOf :: "SetType \<Rightarrow> SetKind" where
  "stdKindOf SetType_Unknown = UnknownKind"
| "stdKindOf NameSpace = HashSet"
| "stdKindOf KeyLabelOfNameSpace = ListSet"
| "stdKindOf KeyLabelOfPod = HashSet"
| "stdKindOf KeyValueLabelOfPod = HashSet"

fun splitDots :: "string \<Rightarrow> string list" where
  "splitDots [] = [[]]"
| "splitDots (c # cs) =
     (if c = CHR ''.'' then [] # splitDots cs
      else (case splitDots cs of [] \<Rightarrow> [[c]] | f # fs \<Rightarrow> (c # f) # fs))"

definition isDigit :: "char \<Rightarrow> bool" where
  "isDigit c = (c \<in> set ''0123456789'')"

definition decimal :: "string \<Rightarrow> nat" where
  "decimal s = foldl (\<lambda>n c. 10 * n + (of_char c - 48)) 0 s"

definition octet :: "string \<Rightarrow> bool" where
  "octet s =
     (s \<noteq> [] \<and> length s \<le> 3 \<and> list_all isDigit s \<and> decimal s \<le> 255 \<and>
      (length s = 1 \<or> take 1 s \<noteq> ''0''))"

definition dottedQuad :: "string \<Rightarrow> bool" where
  "dottedQuad s =
     (case splitDots s of
        [a, b, c, d] \<Rightarrow> octet a \<and> octet b \<and> octet c \<and> octet d
      | _ \<Rightarrow> False)"

definition stdExternals :: externals where
  "stdExternals = \<lparr>kindOf = stdKindOf, To4 = dottedQuad\<rparr>"

definition blankIPSet :: api_IPSet where
  "blankIPSet = \<lparr>Name = [], Type = SetType_Unknown, IpPodKey = Map.empty, IPSet = Map.empty\<rparr>"

text \<open>The state in which NewIPSetManager leaves a fresh process.\<close>

definition initState :: state where
  "initState =
     \<lparr>heap = (\<lambda>_. blankIPSet), nextFree = 0, mgr = NewIPSetManager,
      metrics = \<lparr>NumIPSetEntries = 0, IPSetInventory = (\<lambda>_. 0)\<rparr>\<rparr>"

text \<open>
  A state with the hash set S at address 0 and the list L at address 1, S a member of L
  and 10.0.0.1 a member of S, owned by pod-a.
\<close>

definition demoState :: state where
  "demoState =
     \<lparr>heap = (\<lambda>_. blankIPSet)
        (0 := \<lparr>Name = ''S'', Type = NameSpace,
               IpPodKey = [''10.0.0.1'' \<mapsto> ''pod-a''], IPSet = Map.empty\<rparr>,
         1 := \<lparr>Name = ''L'', Type = KeyLabelOfNameSpace,
               IpPodKey = Map.empty, IPSet = [''S'' \<mapsto> 0]\<rparr>),
      nextFree = 2,
      mgr = \<lparr>listMap = \<lparr>cache = [''L'' \<mapsto> 1], locked = False\<rparr>,
             setMap = \<lparr>cache = [''S'' \<mapsto> 0], locked = False\<rparr>,
             os = ''linux''\<rparr>,
      metrics = \<lparr>NumIPSetEntries = 2, IPSetInventory = (\<lambda>_. 0)(''S'' := 2)\<rparr>\<rparr>"

text \<open>
  For the statements about GetIPsFromSelectorIPSets: whether a name is a hash set in the
  set cache, and the IP membership of the set of that name (its addresses, whoever owns
  them).
\<close>

definition hashSetNamed :: "externals \<Rightarrow> state \<Rightarrow> string \<Rightarrow> bool" where
  "hashSetNamed x st setName =
     (case cache (setMap (mgr st)) setName of
        None \<Rightarrow> False
      | Some setp \<Rightarrow> getSetKind x (heap st setp) = HashSet)"

definition memberIPs :: "state \<Rightarrow> string \<Rightarrow> string set" where
  "memberIPs st setName =
     (case cache (setMap (mgr st)) setName of
        None \<Rightarrow> {}
      | Some setp \<Rightarrow> dom (IpPodKey (heap st setp)))"

text \<open>
  The steps of TestGetIPsFromSelectorIPSets before the query, from a fresh manager: four
  sets are created, 10.0.0.1 and 10.0.0.2 are added to all four, 10.0.0.3 to three.
\<close>

definition thenDo ::
  "error option outcome \<Rightarrow> (state \<Rightarrow> error option outcome) \<Rightarrow> error option outcome" where
  "thenDo r f =
     (case r of
        Blocked \<Rightarrow> Blocked
      | Return (Some err) st \<Rightarrow> Return (Some err) st
      | Return None st \<Rightarrow> f st)"

definition selectorScenario :: "error option outcome" where
  "selectorScenario =
     thenDo (thenDo (thenDo (thenDo (thenDo (thenDo
       (CreateIPSet_named stdExternals initState ''setNs1'' NameSpace)
       (\<lambda>st. CreateIPSet_named stdExternals st ''setpod1'' KeyLabelOfPod))
       (\<lambda>st. CreateIPSet_named stdExternals st ''setpod2'' KeyLabelOfPod))
       (\<lambda>st. CreateIPSet_named stdExternals st ''setpod3'' KeyValueLabelOfPod))
       (\<lambda>st. AddToSets stdExternals st [''setNs1'', ''setpod1'', ''setpod2'', ''setpod3'']
               ''10.0.0.1'' ''test''))
       (\<lambda>st. AddToSets stdExternals st [''setNs1'', ''setpod1'', ''setpod2'', ''setpod3'']
               ''10.0.0.2'' ''test1''))
       (\<lambda>st. AddToSets stdExternals st [''setNs1'', ''setpod2'', ''setpod3'']
               ''10.0.0.3'' ''test3'')"

section \<open>Policies (package policies)\<close>

text \<open>
  Of \<^verbatim>\<open>ipsets.IPSet\<close>, the set object that a policy carries and DataPlane reads, the fields
  that DataPlane reads; its declaration is not in the sources. Of the members only the
  names are read, in the order in which the loop meets them.
\<close>

record ipsets_IPSet =
  Name :: string
  Type :: SetType
  Kind :: SetKind
  MemberIPSets :: "string list"

record NPMNetworkPolicy =
  Name :: string
  PodSelectorIPSets :: "ipsets_IPSet list"
  RuleIPSets :: "ipsets_IPSet list"
  PodEndpoints :: "string \<rightharpoonup> string"

record PolicyMap =
  cache :: "string \<rightharpoonup> NPMNetworkPolicy"

text \<open>
  Modelled from the spec: the platform methods addPolicy, removePolicy and updatePolicy of
  PolicyManager are not in the sources. The spec has them as the external programming
  backend, which either succeeds or returns a failure. They are parameters; \<open>backend\<close>
  is the state of that backend, which they may change.
\<close>

record 'b PolicyManager =
  policyMap :: PolicyMap
  backend :: 'b

record 'b platform =
  addPolicy :: "'b \<Rightarrow> NPMNetworkPolicy \<Rightarrow> error option \<times> 'b"
  removePolicy :: "'b \<Rightarrow> string \<Rightarrow> error option \<times> 'b"
  updatePolicy :: "'b \<Rightarrow> NPMNetworkPolicy \<Rightarrow> error option \<times> 'b"

definition NewPolicyManager :: "'b \<Rightarrow> 'b PolicyManager" where
  "NewPolicyManager b = \<lparr>policyMap = \<lparr>cache = Map.empty\<rparr>, backend = b\<rparr>"

definition PolicyExists :: "'b PolicyManager \<Rightarrow> string \<Rightarrow> bool" where
  "PolicyExists pMgr name = (cache (policyMap pMgr) name \<noteq> None)"

definition GetPolicy :: "'b PolicyManager \<Rightarrow> string \<Rightarrow> NPMNetworkPolicy option" where
  "GetPolicy pMgr name = cache (policyMap pMgr) name"

definition PolicyManager_AddPolicy ::
  "'b platform \<Rightarrow> 'b PolicyManager \<Rightarrow> NPMNetworkPolicy \<Rightarrow> error option \<times> 'b PolicyManager" where
  "PolicyManager_AddPolicy pf pMgr policy =
     (case addPolicy pf (backend pMgr) policy of
        (Some err, b) \<Rightarrow> (Some err, pMgr\<lparr>backend := b\<rparr>)
      | (None, b) \<Rightarrow>
          (None, pMgr\<lparr>policyMap := \<lparr>cache = (cache (policyMap pMgr))
                          (NPMNetworkPolicy.Name policy \<mapsto> policy)\<rparr>,
                      backend := b\<rparr>))"

definition PolicyManager_RemovePolicy ::
  "'b platform \<Rightarrow> 'b PolicyManager \<Rightarrow> string \<Rightarrow> error option \<times> 'b PolicyManager" where
  "PolicyManager_RemovePolicy pf pMgr name =
     (case removePolicy pf (backend pMgr) name of
        (Some err, b) \<Rightarrow> (Some err, pMgr\<lparr>backend := b\<rparr>)
      | (None, b) \<Rightarrow>
          (None, pMgr\<lparr>policyMap := \<lparr>cache = (cache (policyMap pMgr))(name := None)\<rparr>,
                      backend := b\<rparr>))"

definition PolicyManager_UpdatePolicy ::
  "'b platform \<Rightarrow> 'b PolicyManager \<Rightarrow> NPMNetworkPolicy \<Rightarrow> error option \<times> 'b PolicyManager" where
  "PolicyManager_UpdatePolicy pf pMgr policy =
     (case updatePolicy pf (backend pMgr) policy of
        (Some err, b) \<Rightarrow> (Some err, pMgr\<lparr>backend := b\<rparr>)
      | (None, b) \<Rightarrow> (None, pMgr\<lparr>backend := b\<rparr>))"

section \<open>The DataPlane (package dataplane)\<close>

datatype ReferenceType = SelectorType | NetPolType

text \<open>
  Modelled from the spec: the IPSetManager methods that DataPlane calls by set name
  (CreateIPSet with a name and a type, whose result DataPlane drops, AddReference,
  DeleteReference, AddToList and RemoveFromList with a list of names, DeleteIPSet) are not
  in the sources. They are parameters over a manager state \<open>'i\<close>.
\<close>

record 'i ipsetAPI =
  api_CreateIPSet :: "'i \<Rightarrow> string \<Rightarrow> SetType \<Rightarrow> 'i"
  api_AddReference :: "'i \<Rightarrow> string \<Rightarrow> string \<Rightarrow> ReferenceType \<Rightarrow> error option \<times> 'i"
  api_DeleteReference :: "'i \<Rightarrow> string \<Rightarrow> string \<Rightarrow> ReferenceType \<Rightarrow> error option \<times> 'i"
  api_AddToList :: "'i \<Rightarrow> string \<Rightarrow> string list \<Rightarrow> error option \<times> 'i"
  api_RemoveFromList :: "'i \<Rightarrow> string \<Rightarrow> string list \<Rightarrow> error option \<times> 'i"
  api_DeleteIPSet :: "'i \<Rightarrow> string \<Rightarrow> 'i"

record NPMEndpoint =
  Name :: string
  ID :: string
  NetPolReference :: "string set"

record ('i, 'b) DataPlane =
  policyMgr :: "'b PolicyManager"
  ipsetMgr :: 'i
  networkID :: string
  nodeName :: string
  endpointCache :: "string \<rightharpoonup> NPMEndpoint"

text \<open>The two loops of addIPSetReferences, then the function.\<close>

fun addReferences ::
  "'i ipsetAPI \<Rightarrow> 'i \<Rightarrow> ipsets_IPSet list \<Rightarrow> string \<Rightarrow> ReferenceType \<Rightarrow> error option \<times> 'i" where
  "addReferences api i [] netpolName referenceType = (None, i)"
| "addReferences api i (s # sets) netpolName referenceType =
     (case api_AddReference api
             (api_CreateIPSet api i (ipsets_IPSet.Name s) (ipsets_IPSet.Type s))
             (ipsets_IPSet.Name s) netpolName referenceType of
        (Some err, i1) \<Rightarrow> (Some err, i1)
      | (None, i1) \<Rightarrow> addReferences api i1 sets netpolName referenceType)"

fun addMembers :: "'i ipsetAPI \<Rightarrow> 'i \<Rightarrow> ipsets_IPSet list \<Rightarrow> error option \<times> 'i" where
  "addMembers api i [] = (None, i)"
| "addMembers api i (s # sets) =
     (if Kind s = ListSet \<and> length (MemberIPSets s) > 0 then
        (case api_AddToList api i (ipsets_IPSet.Name s) (MemberIPSets s) of
           (Some err, i1) \<Rightarrow> (Some err, i1)
         | (None, i1) \<Rightarrow> addMembers api i1 sets)
      else addMembers api i sets)"

definition addIPSetReferences ::
  "'i ipsetAPI \<Rightarrow> 'i \<Rightarrow> ipsets_IPSet list \<Rightarrow> string \<Rightarrow> ReferenceType \<Rightarrow> error option \<times> 'i" where
  "addIPSetReferences api i sets netpolName referenceType =
     (case addReferences api i sets netpolName referenceType of
        (Some err, i1) \<Rightarrow> (Some err, i1)
      | (None, i1) \<Rightarrow> addMembers api i1 sets)"

text \<open>The two loops of deleteIPSetReferences, then the function.\<close>

fun deleteReferences ::
  "'i ipsetAPI \<Rightarrow> 'i \<Rightarrow> ipsets_IPSet list \<Rightarrow> string \<Rightarrow> ReferenceType \<Rightarrow> error option \<times> 'i" where
  "deleteReferences api i [] netpolName referenceType = (None, i)"
| "deleteReferences api i (s # sets) netpolName referenceType =
     (case api_DeleteReference api i (ipsets_IPSet.Name s) netpolName referenceType of
        (Some err, i1) \<Rightarrow> (Some err, i1)
      | (None, i1) \<Rightarrow> deleteReferences api i1 sets netpolName referenceType)"

fun deleteMembers :: "'i ipsetAPI \<Rightarrow> 'i \<Rightarrow> ipsets_IPSet list \<Rightarrow> error option \<times> 'i" where
  "deleteMembers api i [] = (None, i)"
| "deleteMembers api i (s # sets) =
     (if Kind s = ListSet \<and> length (MemberIPSets s) > 0 then
        (case api_RemoveFromList api i (ipsets_IPSet.Name s) (MemberIPSets s) of
           (Some err, i1) \<Rightarrow> (Some err, i1)
         | (None, i1) \<Rightarrow>
             deleteMembers api (api_DeleteIPSet api i1 (ipsets_IPSet.Name s)) sets)
      else deleteMembers api (api_DeleteIPSet api i (ipsets_IPSet.Name s)) sets)"

definition deleteIPSetReferences ::
  "'i ipsetAPI \<Rightarrow> 'i \<Rightarrow> ipsets_IPSet list \<Rightarrow> string \<Rightarrow> ReferenceType \<Rightarrow> error option \<times> 'i" where
  "deleteIPSetReferences api i sets netpolName referenceType =
     (case deleteReferences api i sets netpolName referenceType of
        (Some err, i1) \<Rightarrow> (Some err, i1)
      | (None, i1) \<Rightarrow> deleteMembers api i1 sets)"

text \<open>getEndpointsToApplyPolicy returns \<^verbatim>\<open>nil, nil\<close> in both platform files.\<close>

definition getEndpointsToApplyPolicy ::
  "('i, 'b) DataPlane \<Rightarrow> NPMNetworkPolicy \<Rightarrow> (string \<rightharpoonup> string) \<times> error option" where
  "getEndpointsToApplyPolicy dp policy = (Map.empty, None)"

definition DataPlane_UpdatePolicy ::
  "'b platform \<Rightarrow> ('i, 'b) DataPlane \<Rightarrow> NPMNetworkPolicy \<Rightarrow> error option \<times> ('i, 'b) DataPlane" where
  "DataPlane_UpdatePolicy pf dp policy =
     (case PolicyManager_UpdatePolicy pf (policyMgr dp) policy of
        (Some err, pm) \<Rightarrow>
          (Some (Wrap ''[DataPlane] error while updating policy: '' err), dp\<lparr>policyMgr := pm\<rparr>)
      | (None, pm) \<Rightarrow> (None, dp\<lparr>policyMgr := pm\<rparr>))"

definition DataPlane_AddPolicy ::
  "'i ipsetAPI \<Rightarrow> 'b platform \<Rightarrow> ('i, 'b) DataPlane \<Rightarrow> NPMNetworkPolicy \<Rightarrow>
     error option \<times> ('i, 'b) DataPlane" where
  "DataPlane_AddPolicy api pf dp policy =
     (if PolicyExists (policyMgr dp) (NPMNetworkPolicy.Name policy) then
        DataPlane_UpdatePolicy pf dp policy
      else
        (case addIPSetReferences api (ipsetMgr dp) (PodSelectorIPSets policy)
                (NPMNetworkPolicy.Name policy) SelectorType of
           (Some err, i1) \<Rightarrow>
             (Some (Wrap ''[DataPlane] error while adding Selector IPSet references: '' err),
              dp\<lparr>ipsetMgr := i1\<rparr>)
         | (None, i1) \<Rightarrow>
             (case addIPSetReferences api i1 (RuleIPSets policy)
                     (NPMNetworkPolicy.Name policy) NetPolType of
                (Some err, i2) \<Rightarrow>
                  (Some (Wrap ''[DataPlane] error while adding Rule IPSet references: '' err),
                   dp\<lparr>ipsetMgr := i2\<rparr>)
              | (None, i2) \<Rightarrow>
                  (case getEndpointsToApplyPolicy (dp\<lparr>ipsetMgr := i2\<rparr>) policy of
                     (endpointList, Some err) \<Rightarrow> (Some err, dp\<lparr>ipsetMgr := i2\<rparr>)
                   | (endpointList, None) \<Rightarrow>
                       (case PolicyManager_AddPolicy pf (policyMgr dp)
                               (policy\<lparr>PodEndpoints := endpointList\<rparr>) of
                          (Some err, pm) \<Rightarrow>
                            (Some (Wrap ''[DataPlane] error while adding policy: '' err),
                             dp\<lparr>ipsetMgr := i2, policyMgr := pm\<rparr>)
                        | (None, pm) \<Rightarrow> (None, dp\<lparr>ipsetMgr := i2, policyMgr := pm\<rparr>))))))"

definition DataPlane_RemovePolicy ::
  "'i ipsetAPI \<Rightarrow> 'b platform \<Rightarrow> ('i, 'b) DataPlane \<Rightarrow> string \<Rightarrow>
     error option \<times> ('i, 'b) DataPlane" where
  "DataPlane_RemovePolicy api pf dp policyName =
     (case GetPolicy (policyMgr dp) policyName of
        None \<Rightarrow> (None, dp)
      | Some policy \<Rightarrow>
          (case PolicyManager_RemovePolicy pf (policyMgr dp) (NPMNetworkPolicy.Name policy) of
             (Some err, pm) \<Rightarrow>
               (Some (Wrap ''[DataPlane] error while removing policy: '' err),
                dp\<lparr>policyMgr := pm\<rparr>)
           | (None, pm) \<Rightarrow>
               (case deleteIPSetReferences api (ipsetMgr dp) (RuleIPSets policy)
                       (NPMNetworkPolicy.Name policy) NetPolType of
                  (Some err, i1) \<Rightarrow> (Some err, dp\<lparr>policyMgr := pm, ipsetMgr := i1\<rparr>)
                | (None, i1) \<Rightarrow>
                    (case deleteIPSetReferences api i1 (PodSelectorIPSets policy)
                            (NPMNetworkPolicy.Name policy) SelectorType of
                       (Some err, i2) \<Rightarrow> (Some err, dp\<lparr>policyMgr := pm, ipsetMgr := i2\<rparr>)
                     | (None, i2) \<Rightarrow> (None, dp\<lparr>policyMgr := pm, ipsetMgr := i2\<rparr>)))))"

subsection \<open>A concrete setting for the examples\<close>

text \<open>
  Modelled from the spec: a stand-in for the IPSetManager that DataPlane calls, for the
  examples. A set is created if absent; a reference can only be added to a set that
  exists; each registration adds one entry to the set's references, so that a second
  registration would show; a set is deleted only when it has no reference left.
\<close>

record trackedSet =
  tsType :: SetType
  tsReferences :: "(string \<times> ReferenceType) list"
  tsMembers :: "string list"

type_synonym tracker = "string \<rightharpoonup> trackedSet"

text \<open>
  Modelled from the spec: the by-name operations of the stand-in (create if absent,
  register and release a reference, add and remove list members, delete when
  unreferenced).
\<close>

definition trackerAPI :: "tracker ipsetAPI" where
  "trackerAPI =
     \<lparr>api_CreateIPSet = (\<lambda>i n t.
         case i n of
           Some _ \<Rightarrow> i
         | None \<Rightarrow> i(n \<mapsto> \<lparr>tsType = t, tsReferences = [], tsMembers = []\<rparr>)),
      api_AddReference = (\<lambda>i n pol rt.
         case i n of
           None \<Rightarrow> (Some (Errorf Op_AppendIPSet False (''ipset '' @ n @ '' does not exist'')), i)
         | Some s \<Rightarrow> (None, i(n \<mapsto> s\<lparr>tsReferences := tsReferences s @ [(pol, rt)]\<rparr>))),
      api_DeleteReference = (\<lambda>i n pol rt.
         case i n of
           None \<Rightarrow> (Some (Errorf Op_DeleteIPSet False (''ipset '' @ n @ '' does not exist'')), i)
         | Some s \<Rightarrow> (None, i(n \<mapsto> s\<lparr>tsReferences := remove1 (pol, rt) (tsReferences s)\<rparr>))),
      api_AddToList = (\<lambda>i l names.
         case i l of
           None \<Rightarrow> (Some (Errorf Op_AppendIPSet False (''ipset '' @ l @ '' does not exist'')), i)
         | Some s \<Rightarrow>
             (None, i(l \<mapsto> s\<lparr>tsMembers :=
                tsMembers s @ filter (\<lambda>n. \<not> List.member (tsMembers s) n) names\<rparr>))),
      api_RemoveFromList = (\<lambda>i l names.
         case i l of
           None \<Rightarrow> (Some (Errorf Op_DeleteIPSet False (''ipset '' @ l @ '' does not exist'')), i)
         | Some s \<Rightarrow>
             (None, i(l \<mapsto> s\<lparr>tsMembers :=
                filter (\<lambda>n. \<not> List.member names n) (tsMembers s)\<rparr>))),
      api_DeleteIPSet = (\<lambda>i n.
         case i n of
           None \<Rightarrow> i
         | Some s \<Rightarrow> (if tsReferences s = [] then i(n := None) else i))\<rparr>"

text \<open>
  A backend that answers from a script: each call takes the next answer, and succeeds
  once the script is used up.
\<close>

definition nextAnswer :: "error option list \<Rightarrow> error option \<times> error option list" where
  "nextAnswer b = (case b of [] \<Rightarrow> (None, []) | r # rs \<Rightarrow> (r, rs))"

definition scripted :: "error option list platform" where
  "scripted =
     \<lparr>addPolicy = (\<lambda>b policy. nextAnswer b),
      removePolicy = (\<lambda>b name. nextAnswer b),
      updatePolicy = (\<lambda>b policy. nextAnswer b)\<rparr>"

definition NewDataPlane :: "'i \<Rightarrow> 'b \<Rightarrow> string \<Rightarrow> ('i, 'b) DataPlane" where
  "NewDataPlane i b node =
     \<lparr>policyMgr = NewPolicyManager b, ipsetMgr = i, networkID = [], nodeName = node,
      endpointCache = Map.empty\<rparr>"

definition demoPolicy :: NPMNetworkPolicy where
  "demoPolicy =
     \<lparr>NPMNetworkPolicy.Name = ''allow-web'',
      PodSelectorIPSets =
        [\<lparr>ipsets_IPSet.Name = ''ns-prod'', ipsets_IPSet.Type = NameSpace,
          Kind = HashSet, MemberIPSets = []\<rparr>],
      RuleIPSets =
        [\<lparr>ipsets_IPSet.Name = ''app-web'', ipsets_IPSet.Type = KeyValueLabelOfPod,
          Kind = HashSet, MemberIPSets = []\<rparr>],
      PodEndpoints = Map.empty\<rparr>"


section \<open>Properties of the IPSetManager\<close>

subsection \<open>Locks\<close>

lemma getMap_putMap [simp]: "getMap m (putMap m v st) = v"
  by (cases m) (simp_all add: getMap_def putMap_def)

lemma putMap_putMap [simp]: "putMap m v (putMap m w st) = putMap m v st"
  by (cases m) (simp_all add: getMap_def putMap_def)

lemma putMap_getMap [simp]: "putMap m (getMap m st) st = st"
  by (cases m) (simp_all add: getMap_def putMap_def)

lemma heap_putMap [simp]: "heap (putMap m v st) = heap st"
  by (cases m) (simp_all add: putMap_def)

lemma metrics_putMap [simp]: "metrics (putMap m v st) = metrics st"
  by (cases m) (simp_all add: putMap_def)

lemma locked_False_id: "\<not> locked r \<Longrightarrow> r\<lparr>locked := False\<rparr> = (r::IPSetMap)"
  by (cases r) simp

lemma locking_const:
  "\<not> locked (getMap m st) \<Longrightarrow> (\<And>s. body s = Return r s) \<Longrightarrow> locking m body st = Return r st"
  by (simp add: locking_def Lock_def Unlock_def locked_False_id)

lemma locking_Blocked: "locked (getMap m st) \<Longrightarrow> locking m body st = Blocked"
  by (simp add: locking_def Lock_def)

lemma locked_False_cache:
  "\<not> locked r \<Longrightarrow>
   r\<lparr>IPSetMap.cache := c, locked := False\<rparr> = (r::IPSetMap)\<lparr>IPSetMap.cache := c\<rparr>"
  by (cases r) simp

lemma locking_unlocked:
  "\<not> locked (getMap m st) \<Longrightarrow>
   locking m body st =
     (case body (putMap m ((getMap m st)\<lparr>locked := True\<rparr>) st) of
        Blocked \<Rightarrow> Blocked
      | Return r st2 \<Rightarrow> Return r (Unlock m st2))"
  by (simp add: locking_def Lock_def)

subsection \<open>AddToSet and DeleteFromSet on a hash set that is in the cache\<close>

lemma AddToSet_present:
  assumes "To4 x ip" and "\<not> locked (setMap (mgr st))"
    and "IPSetMap.cache (setMap (mgr st)) s = Some a" and "getSetKind x (heap st a) = HashSet"
  shows "AddToSet x st s ip k =
     Return None
       (case IpPodKey (heap st a) ip of
          Some c \<Rightarrow>
            if c \<noteq> k
            then st\<lparr>heap := (heap st)(a := (heap st a)
                   \<lparr>IpPodKey := (IpPodKey (heap st a))(ip \<mapsto> k)\<rparr>)\<rparr>
            else st
        | None \<Rightarrow>
            metricsInc s
              (st\<lparr>heap := (heap st)(a := (heap st a)
                  \<lparr>IpPodKey := (IpPodKey (heap st a))(ip \<mapsto> k)\<rparr>)\<rparr>))"
proof -
  let ?h = "putMap SetCache ((getMap SetCache st)\<lparr>locked := True\<rparr>) st"
  have u: "\<not> locked (getMap SetCache st)"
    using assms(2) by (simp add: getMap_def)
  have c: "IPSetMap.cache (setMap (mgr ?h)) s = Some a"
    using assms(3) by (simp add: putMap_def getMap_def)
  have k: "getSetKind x (heap ?h a) = HashSet"
    using assms(4) by simp
  have e: "AddToSet x st s ip k =
     (case AddToSet_entry x ?h a s ip k of
        Blocked \<Rightarrow> Blocked
      | Return r st2 \<Rightarrow> Return r (Unlock SetCache st2))"
    using assms(1) c by (simp add: AddToSet_def locking_unlocked [OF u])
  show ?thesis
    unfolding e using k assms(2)
    by (simp add: AddToSet_entry_def metricsInc_def Unlock_def putMap_def getMap_def
        locked_False_id split: option.splits)
qed

lemma AddToSet_present_props:
  assumes "To4 x ip" and "\<not> locked (setMap (mgr st))"
    and "IPSetMap.cache (setMap (mgr st)) s = Some a" and "getSetKind x (heap st a) = HashSet"
  shows "\<exists>st1. AddToSet x st s ip k = Return None st1 \<and> mgr st1 = mgr st \<and>
           getSetKind x (heap st1 a) = HashSet \<and> IpPodKey (heap st1 a) ip = Some k"
  using assms(4)
  by (simp add: AddToSet_present [OF assms] metricsInc_def getSetKind_def split: option.splits)

lemma DeleteFromSet_stale:
  assumes "\<not> locked (setMap (mgr st))"
    and "IPSetMap.cache (setMap (mgr st)) s = Some a" and "getSetKind x (heap st a) = HashSet"
    and "IpPodKey (heap st a) ip = Some c" and "c \<noteq> k"
  shows "DeleteFromSet x st s ip k = Return None st"
  using assms
  by (simp add: DeleteFromSet_def locking_unlocked getMap_def putMap_def Unlock_def
      locked_False_id)

subsection \<open>CreateIPSet\<close>

lemma CreateIPSet_present:
  assumes "getSetCache x st b = Inr m" and "\<not> locked (getMap m st)"
    and "IPSetMap.cache (getMap m st) (api_IPSet.Name (heap st b)) \<noteq> None"
  shows "CreateIPSet x st b = Return None st"
  using assms
  by (simp add: CreateIPSet_def locking_unlocked exists_def Unlock_def locked_False_id)

lemma CreateIPSet_absent:
  assumes "getSetCache x st a = Inr m" and "\<not> locked (getMap m st)"
    and "IPSetMap.cache (getMap m st) (api_IPSet.Name (heap st a)) = None"
  shows "CreateIPSet x st a =
     Return None
       (putMap m ((getMap m st)\<lparr>IPSetMap.cache :=
          (IPSetMap.cache (getMap m st))(api_IPSet.Name (heap st a) \<mapsto> a)\<rparr>) st)"
  using assms
  by (simp add: CreateIPSet_def locking_unlocked exists_def Unlock_def locked_False_cache)

lemma example_address: "dottedQuad ''10.0.0.2''"
  by (simp add: dottedQuad_def octet_def isDigit_def decimal_def)

subsection \<open>Claims\<close>

text \<open>
  C1: let s name a hash set in the cache (the set cache is not locked by a call in
  progress), ip an address that parses as IPv4 and k1, k2 two different pod keys. Then
  AddToSet(s, ip, k1) returns no error; AddToSet(s, ip, k2) after it returns no error and
  changes nothing but the owner of ip, which becomes k2; and DeleteFromSet(s, ip, k1)
  after that returns no error and leaves the state as it is, so the owner is still k2.
\<close>

theorem AddToSet_overwrite_then_stale_delete:
  assumes "To4 x ip" and "\<not> locked (setMap (mgr st))"
    and "IPSetMap.cache (setMap (mgr st)) s = Some a" and "getSetKind x (heap st a) = HashSet"
    and "k1 \<noteq> k2"
  shows "\<exists>st1 st2.
           AddToSet x st s ip k1 = Return None st1 \<and>
           AddToSet x st1 s ip k2 = Return None st2 \<and>
           st2 = st1\<lparr>heap := (heap st1)(a := (heap st1 a)
                   \<lparr>IpPodKey := (IpPodKey (heap st1 a))(ip \<mapsto> k2)\<rparr>)\<rparr> \<and>
           IpPodKey (heap st2 a) ip = Some k2 \<and>
           DeleteFromSet x st2 s ip k1 = Return None st2"
proof -
  obtain st1 where 1: "AddToSet x st s ip k1 = Return None st1" and m1: "mgr st1 = mgr st"
    and k1: "getSetKind x (heap st1 a) = HashSet" and o1: "IpPodKey (heap st1 a) ip = Some k1"
    using AddToSet_present_props [OF assms(1-4)] by blast
  let ?st2 = "st1\<lparr>heap := (heap st1)(a := (heap st1 a)
                   \<lparr>IpPodKey := (IpPodKey (heap st1 a))(ip \<mapsto> k2)\<rparr>)\<rparr>"
  have u1: "\<not> locked (setMap (mgr st1))"
    and c1: "IPSetMap.cache (setMap (mgr st1)) s = Some a"
    using assms(2,3) m1 by simp_all
  have 2: "AddToSet x st1 s ip k2 = Return None ?st2"
    using o1 assms(5) by (simp add: AddToSet_present [OF assms(1) u1 c1 k1])
  have o2: "IpPodKey (heap ?st2 a) ip = Some k2"
    by simp
  have kd2: "getSetKind x (heap ?st2 a) = HashSet"
    using k1 by (simp add: getSetKind_def)
  have u2: "\<not> locked (setMap (mgr ?st2))"
    and c2: "IPSetMap.cache (setMap (mgr ?st2)) s = Some a"
    using u1 c1 by simp_all
  have 3: "DeleteFromSet x ?st2 s ip k1 = Return None ?st2"
    using assms(5) by (intro DeleteFromSet_stale [OF u2 c2 kd2 o2]) simp
  from 1 2 o2 3 show ?thesis by blast
qed

theorem AddToSet_overwrite_then_stale_delete_witness:
  "To4 stdExternals ''10.0.0.2'' \<and> \<not> locked (setMap (mgr demoState)) \<and>
   IPSetMap.cache (setMap (mgr demoState)) ''S'' = Some 0 \<and>
   getSetKind stdExternals (heap demoState 0) = HashSet \<and> ''pod-b'' \<noteq> ''pod-c'' \<and>
   (\<exists>st1 st2.
      AddToSet stdExternals demoState ''S'' ''10.0.0.2'' ''pod-b'' = Return None st1 \<and>
      AddToSet stdExternals st1 ''S'' ''10.0.0.2'' ''pod-c'' = Return None st2 \<and>
      IpPodKey (heap st2 0) ''10.0.0.2'' = Some ''pod-c'' \<and>
      DeleteFromSet stdExternals st2 ''S'' ''10.0.0.2'' ''pod-b'' = Return None st2)"
proof -
  have h1: "To4 stdExternals ''10.0.0.2''"
    by (simp add: stdExternals_def example_address)
  have h2: "\<not> locked (setMap (mgr demoState))"
    by (simp add: demoState_def)
  have h3: "IPSetMap.cache (setMap (mgr demoState)) ''S'' = Some 0"
    by (simp add: demoState_def)
  have h4: "getSetKind stdExternals (heap demoState 0) = HashSet"
    by (simp add: demoState_def getSetKind_def stdExternals_def)
  have h5: "''pod-b'' \<noteq> ''pod-c''"
    by simp
  from AddToSet_overwrite_then_stale_delete [OF h1 h2 h3 h4 h5] h1 h2 h3 h4
  show ?thesis by blast
qed

text \<open>
  C5: for a set object whose type implies a list or a hash kind (no call in progress
  holds a lock), CreateIPSet returns no error, and calling it again with the same
  arguments returns no error and leaves the state of the first call. More generally,
  once the name is in the matching cache, CreateIPSet with any set object of that name
  and kind returns no error and changes nothing: the cached set is not replaced.
\<close>

theorem CreateIPSet_idempotent:
  assumes "getSetKind x (heap st a) \<noteq> UnknownKind"
    and "\<not> locked (listMap (mgr st))" and "\<not> locked (setMap (mgr st))"
  shows "\<exists>st1. CreateIPSet x st a = Return None st1 \<and>
           CreateIPSet x st1 a = Return None st1 \<and>
           (\<forall>b. api_IPSet.Name (heap st1 b) = api_IPSet.Name (heap st a) \<and>
                getSetKind x (heap st1 b) = getSetKind x (heap st a) \<longrightarrow>
                CreateIPSet x st1 b = Return None st1)"
proof -
  obtain m where m: "getSetCache x st a = Inr m"
    using assms(1) by (cases "getSetKind x (heap st a)") (simp_all add: getSetCache_def)
  have u: "\<not> locked (getMap m st)"
    using assms(2,3) by (cases m) (simp_all add: getMap_def)
  obtain st1 where 1: "CreateIPSet x st a = Return None st1" and h: "heap st1 = heap st"
    and u1: "\<not> locked (getMap m st1)"
    and c1: "IPSetMap.cache (getMap m st1) (api_IPSet.Name (heap st a)) \<noteq> None"
  proof (cases "IPSetMap.cache (getMap m st) (api_IPSet.Name (heap st a))")
    case None
    show ?thesis
      by (rule that [OF CreateIPSet_absent [OF m u None]]) (use u in simp_all)
  next
    case (Some c)
    show ?thesis
      by (rule that [OF CreateIPSet_present [OF m u]]) (use u Some in simp_all)
  qed
  have again: "CreateIPSet x st1 b = Return None st1"
    if "api_IPSet.Name (heap st1 b) = api_IPSet.Name (heap st a)"
      and "getSetKind x (heap st1 b) = getSetKind x (heap st a)" for b
  proof -
    have "getSetCache x st1 b = Inr m"
      using m that(2) h by (simp add: getSetCache_def)
    then show ?thesis
      using u1 c1 that(1) by (intro CreateIPSet_present) simp_all
  qed
  from 1 again [of a] again h show ?thesis by auto
qed

theorem CreateIPSet_idempotent_witness:
  "getSetKind stdExternals (heap (snd (NewIPSet demoState ''T'' NameSpace)) 2) \<noteq> UnknownKind \<and>
   \<not> locked (listMap (mgr (snd (NewIPSet demoState ''T'' NameSpace)))) \<and>
   \<not> locked (setMap (mgr (snd (NewIPSet demoState ''T'' NameSpace)))) \<and>
   (\<exists>st1. CreateIPSet stdExternals (snd (NewIPSet demoState ''T'' NameSpace)) 2 = Return None st1 \<and>
      CreateIPSet stdExternals st1 2 = Return None st1 \<and>
      IPSetMap.cache (setMap (mgr st1)) ''T'' = Some 2)"
proof -
  let ?st = "snd (NewIPSet demoState ''T'' NameSpace)"
  have h1: "getSetKind stdExternals (heap ?st 2) \<noteq> UnknownKind"
    by (simp add: NewIPSet_def demoState_def getSetKind_def stdExternals_def)
  have h2: "\<not> locked (listMap (mgr ?st))"
    by (simp add: NewIPSet_def demoState_def)
  have h3: "\<not> locked (setMap (mgr ?st))"
    by (simp add: NewIPSet_def demoState_def)
  have g: "getSetCache stdExternals ?st 2 = Inr SetCache"
    by (simp add: NewIPSet_def demoState_def getSetCache_def getSetKind_def stdExternals_def)
  have a: "IPSetMap.cache (getMap SetCache ?st) (api_IPSet.Name (heap ?st 2)) = None"
    by (simp add: NewIPSet_def demoState_def getMap_def)
  have u: "\<not> locked (getMap SetCache ?st)"
    using h3 by (simp add: getMap_def)
  have c: "CreateIPSet stdExternals ?st 2 =
     Return None (putMap SetCache ((getMap SetCache ?st)\<lparr>IPSetMap.cache :=
          (IPSetMap.cache (getMap SetCache ?st))(api_IPSet.Name (heap ?st 2) \<mapsto> 2)\<rparr>) ?st)"
    by (rule CreateIPSet_absent [OF g u a])
  obtain st1 where 1: "CreateIPSet stdExternals ?st 2 = Return None st1"
    and 2: "CreateIPSet stdExternals st1 2 = Return None st1"
    using CreateIPSet_idempotent [OF h1 h2 h3] by blast
  have "IPSetMap.cache (setMap (mgr st1)) ''T'' = Some 2"
    using 1 unfolding c by (auto simp: putMap_def NewIPSet_def demoState_def)
  with 1 2 h1 h2 h3 show ?thesis by blast
qed

text \<open>
  C6 (the code does not do this): for a name that the set cache does not hold, AddToSet
  never returns success, whatever kind the table gives to the type SetType_Unknown of
  the set it allocates. When that kind is unknown, CreateIPSet returns its error and
  AddToSet passes it on; when it is the hash kind, CreateIPSet locks the set cache that
  AddToSet already holds and the call never returns; when it is the list kind, the set
  goes into the list cache and AddToSet rejects it as not a hash set.
\<close>

theorem AddToSet_absent_never_succeeds:
  assumes "IPSetMap.cache (setMap (mgr st)) n = None"
  shows "AddToSet x st n ip k \<noteq> Return None st'"
proof (cases "To4 x ip \<and> \<not> locked (setMap (mgr st))")
  case False
  then show ?thesis
    by (auto simp: AddToSet_def locking_def Lock_def getMap_def)
next
  case True
  let ?h = "st\<lparr>mgr := (mgr st)\<lparr>setMap := (setMap (mgr st))\<lparr>locked := True\<rparr>\<rparr>\<rparr>"
  let ?s1 = "snd (NewIPSet ?h n SetType_Unknown)"
  let ?a = "fst (NewIPSet ?h n SetType_Unknown)"
  have ty: "api_IPSet.Type (heap ?s1 ?a) = SetType_Unknown"
    by (simp add: NewIPSet_def)
  have lk: "locked (getMap SetCache ?s1)"
    by (simp add: NewIPSet_def getMap_def putMap_def)
  have e: "AddToSet x st n ip k =
     (case (case CreateIPSet x ?s1 ?a of
              Blocked \<Rightarrow> Blocked
            | Return (Some err) s2 \<Rightarrow> Return (Some err) s2
            | Return None s2 \<Rightarrow> AddToSet_entry x s2 ?a n ip k) of
        Blocked \<Rightarrow> Blocked
      | Return r st2 \<Rightarrow> Return r (Unlock SetCache st2))"
    using True assms
    by (simp add: AddToSet_def locking_def Lock_def getMap_def putMap_def case_prod_beta)
  show ?thesis
  proof (cases "kindOf x SetType_Unknown")
    case UnknownKind
    then have "CreateIPSet x ?s1 ?a =
        Return (Some (Errorf Op_CreateIPSet False ''unknown Set kind'')) ?s1"
      using ty by (simp add: CreateIPSet_def getSetCache_def getSetKind_def)
    then show ?thesis
      unfolding e by simp
  next
    case HashSet
    then have "getSetCache x ?s1 ?a = Inr SetCache"
      using ty by (simp add: getSetCache_def getSetKind_def)
    then have "CreateIPSet x ?s1 ?a = Blocked"
      using lk by (simp add: CreateIPSet_def locking_Blocked)
    then show ?thesis
      unfolding e by simp
  next
    case ListSet
    then have g: "getSetCache x ?s1 ?a = Inr ListCache"
      using ty by (simp add: getSetCache_def getSetKind_def)
    show ?thesis
    proof (cases "CreateIPSet x ?s1 ?a")
      case Blocked
      then show ?thesis
        unfolding e by simp
    next
      case (Return r s2)
      then have "heap s2 = heap ?s1"
        using g
        by (auto simp: CreateIPSet_def locking_def Lock_def Unlock_def
            split: option.splits if_splits)
      then have "getSetKind x (heap s2 ?a) = ListSet"
        using ty ListSet by (simp add: getSetKind_def)
      then show ?thesis
        unfolding e Return by (cases r) (simp_all add: AddToSet_entry_def)
    qed
  qed
qed

theorem AddToSet_absent_never_succeeds_witness:
  "IPSetMap.cache (setMap (mgr initState)) ''new-set'' = None \<and>
   IPSetMap.cache (listMap (mgr initState)) ''new-set'' = None \<and>
   To4 stdExternals ''10.0.0.2'' \<and>
   (\<forall>st'. AddToSet stdExternals initState ''new-set'' ''10.0.0.2'' ''pod-a'' \<noteq> Return None st') \<and>
   AddToSet stdExternals initState ''new-set'' ''10.0.0.2'' ''pod-a'' =
     Return (Some (Errorf Op_CreateIPSet False ''unknown Set kind''))
       (initState\<lparr>heap := (heap initState)(0 := blankIPSet\<lparr>api_IPSet.Name := ''new-set''\<rparr>),
                  nextFree := 1\<rparr>)"
proof -
  have h: "IPSetMap.cache (setMap (mgr initState)) ''new-set'' = None"
    by (simp add: initState_def NewIPSetManager_def newIPSetMap_def)
  have l: "IPSetMap.cache (listMap (mgr initState)) ''new-set'' = None"
    by (simp add: initState_def NewIPSetManager_def newIPSetMap_def)
  have t: "To4 stdExternals ''10.0.0.2''"
    by (simp add: stdExternals_def example_address)
  have v: "AddToSet stdExternals initState ''new-set'' ''10.0.0.2'' ''pod-a'' =
     Return (Some (Errorf Op_CreateIPSet False ''unknown Set kind''))
       (initState\<lparr>heap := (heap initState)(0 := blankIPSet\<lparr>api_IPSet.Name := ''new-set''\<rparr>),
                  nextFree := 1\<rparr>)"
    using t
    by (simp add: AddToSet_def locking_def Lock_def Unlock_def getMap_def putMap_def
        NewIPSet_def CreateIPSet_def getSetCache_def getSetKind_def stdExternals_def
        initState_def NewIPSetManager_def newIPSetMap_def blankIPSet_def)
  from AddToSet_absent_never_succeeds [OF h] h l t v show ?thesis by blast
qed

text \<open>
  C7: for a name that the set cache does not hold (and no call in progress holds its
  lock), DeleteFromSet returns the error "ipset <name> does not exist" of the delete
  operation, and the state (store, both caches, metrics) is the one before the call.
\<close>

theorem DeleteFromSet_missing:
  assumes "IPSetMap.cache (setMap (mgr st)) setName = None" and "\<not> locked (setMap (mgr st))"
  shows "DeleteFromSet x st setName ip podKey =
    Return (Some (Errorf Op_DeleteIPSet False (''ipset '' @ setName @ '' does not exist''))) st"
  using assms
  by (simp add: DeleteFromSet_def locking_def Lock_def Unlock_def getMap_def putMap_def
      locked_False_id)

theorem DeleteFromSet_missing_witness:
  "IPSetMap.cache (setMap (mgr initState)) ''test-set'' = None \<and>
   \<not> locked (setMap (mgr initState)) \<and>
   DeleteFromSet stdExternals initState ''test-set'' ''10.0.0.0'' ''test-pod-key'' =
     Return (Some (Errorf Op_DeleteIPSet False ''ipset test-set does not exist'')) initState"
proof -
  have h1: "IPSetMap.cache (setMap (mgr initState)) ''test-set'' = None"
    by (simp add: initState_def NewIPSetManager_def newIPSetMap_def)
  have h2: "\<not> locked (setMap (mgr initState))"
    by (simp add: initState_def NewIPSetManager_def newIPSetMap_def)
  from DeleteFromSet_missing [OF h1 h2, of stdExternals "''10.0.0.0''" "''test-pod-key''"] h1 h2
  show ?thesis by simp
qed

text \<open>
  C9: DeleteFromList never changes the state. When a call in progress holds the lock of
  the list cache it never returns; otherwise it returns, with or without an error, and
  the state is the one before the call. In particular, for a hash set S in the set cache
  and a list L in the list cache it returns no error and the state is unchanged, also
  when S is a member of L: the membership map of L still has its entry for S.
\<close>

theorem DeleteFromList_never_mutates:
  "(if locked (listMap (mgr st)) then DeleteFromList x st L S = Blocked
    else \<exists>e. DeleteFromList x st L S = Return e st) \<and>
   (\<forall>sp lp. \<not> locked (listMap (mgr st)) \<and>
      IPSetMap.cache (setMap (mgr st)) S = Some sp \<and> getSetKind x (heap st sp) = HashSet \<and>
      IPSetMap.cache (listMap (mgr st)) L = Some lp \<and> getSetKind x (heap st lp) = ListSet \<longrightarrow>
      DeleteFromList x st L S = Return None st)"
proof (cases "locked (listMap (mgr st))")
  case True
  then show ?thesis
    by (simp add: DeleteFromList_def locking_def Lock_def getMap_def)
next
  case False
  have body: "DeleteFromList x st L S =
    (case IPSetMap.cache (setMap (mgr st)) S of
        None \<Rightarrow>
          Return (Some (Errorf Op_DeleteIPSet False (''ipset '' @ S @ '' does not exist''))) st
      | Some sp \<Rightarrow>
         (if getSetKind x (heap st sp) \<noteq> HashSet then
            Return (Some (Errorf Op_DeleteIPSet False (''ipset '' @ S @ '' is not a hash set''))) st
          else
            (case IPSetMap.cache (listMap (mgr st)) L of
               None \<Rightarrow>
                 Return (Some (Errorf Op_DeleteIPSet False
                   (''ipset '' @ L @ '' does not exist''))) st
             | Some lp \<Rightarrow>
                 (if getSetKind x (heap st lp) \<noteq> ListSet then
                    Return (Some (Errorf Op_DeleteIPSet False
                      (''ipset '' @ L @ '' is not a list set''))) st
                  else Return None st))))"
    using False
    by (simp add: DeleteFromList_def locking_def Lock_def Unlock_def getMap_def putMap_def
        locked_False_id split: option.splits)
  show ?thesis
    using False by (auto simp: body split: option.splits)
qed

theorem DeleteFromList_never_mutates_witness:
  "\<not> locked (listMap (mgr demoState)) \<and>
   IPSetMap.cache (setMap (mgr demoState)) ''S'' = Some 0 \<and>
   getSetKind stdExternals (heap demoState 0) = HashSet \<and>
   IPSetMap.cache (listMap (mgr demoState)) ''L'' = Some 1 \<and>
   getSetKind stdExternals (heap demoState 1) = ListSet \<and>
   IPSet (heap demoState 1) ''S'' = Some 0 \<and>
   DeleteFromList stdExternals demoState ''L'' ''S'' = Return None demoState"
proof -
  have h1: "\<not> locked (listMap (mgr demoState))"
    by (simp add: demoState_def)
  have h2: "IPSetMap.cache (setMap (mgr demoState)) ''S'' = Some 0"
    by (simp add: demoState_def)
  have h3: "getSetKind stdExternals (heap demoState 0) = HashSet"
    by (simp add: demoState_def getSetKind_def stdExternals_def)
  have h4: "IPSetMap.cache (listMap (mgr demoState)) ''L'' = Some 1"
    by (simp add: demoState_def)
  have h5: "getSetKind stdExternals (heap demoState 1) = ListSet"
    by (simp add: demoState_def getSetKind_def stdExternals_def)
  have h6: "IPSet (heap demoState 1) ''S'' = Some 0"
    by (simp add: demoState_def)
  have "DeleteFromList stdExternals demoState ''L'' ''S'' = Return None demoState"
    using DeleteFromList_never_mutates [of demoState stdExternals "''L''" "''S''"]
      h1 h2 h3 h4 h5 by blast
  with h1 h2 h3 h4 h5 h6 show ?thesis by blast
qed

text \<open>
  C8: for every name n, whatever the caches hold and whatever kind a set named n has,
  adding the list n to itself fails with the self-reference error of AddToList, and the
  state (store, both caches, their locks, metrics) is the one before the call.
\<close>

theorem AddToList_self_reference:
  "AddToList x st n n =
     Return (Some (Errorf Op_AppendIPSet False (''list '' @ n @ '' cannot be added to itself''))) st"
  by (simp add: AddToList_def)

section \<open>Properties of GetIPsFromSelectorIPSets\<close>

lemma selectorIPs_hash:
  "hashSetNamed x st n \<Longrightarrow> selectorIPs x st n = Inr (memberIPs st n)"
  by (auto simp: hashSetNamed_def selectorIPs_def memberIPs_def split: option.splits)

lemma intersectSets_hash:
  "list_all (hashSetNamed x st) ns \<Longrightarrow>
   intersectSets x st ns acc = Inr (acc \<inter> (\<Inter>n\<in>set ns. memberIPs st n))"
proof (induction ns arbitrary: acc)
  case Nil
  then show ?case by simp
next
  case (Cons n ns)
  then show ?case
    by (simp add: selectorIPs_hash Int_assoc)
qed

lemma GetIPs_hash:
  assumes "list_all (hashSetNamed x st) ns" and "ns \<noteq> []"
  shows "GetIPsFromSelectorIPSets x st ns = Inr (\<Inter>n\<in>set ns. memberIPs st n)"
proof (cases ns)
  case Nil
  with assms(2) show ?thesis by simp
next
  case (Cons n rest)
  with assms(1) show ?thesis
    by (simp add: GetIPsFromSelectorIPSets_def selectorIPs_hash intersectSets_hash)
qed

lemma example_addresses:
  "dottedQuad ''10.0.0.1''" "dottedQuad ''10.0.0.3''"
  by (simp_all add: dottedQuad_def octet_def isDigit_def decimal_def)

lemma scenario_facts:
  "\<exists>st. selectorScenario = Return None st \<and>
     list_all (hashSetNamed stdExternals st) [''setNs1'', ''setpod1'', ''setpod2'', ''setpod3''] \<and>
     memberIPs st ''setNs1'' = {''10.0.0.3'', ''10.0.0.2'', ''10.0.0.1''} \<and>
     memberIPs st ''setpod1'' = {''10.0.0.2'', ''10.0.0.1''} \<and>
     memberIPs st ''setpod2'' = {''10.0.0.3'', ''10.0.0.2'', ''10.0.0.1''} \<and>
     memberIPs st ''setpod3'' = {''10.0.0.3'', ''10.0.0.2'', ''10.0.0.1''}"
  by (simp add: selectorScenario_def thenDo_def CreateIPSet_named_def NewIPSet_def
        CreateIPSet_def getSetCache_def getSetKind_def stdExternals_def initState_def
        NewIPSetManager_def newIPSetMap_def locking_def Lock_def Unlock_def getMap_def putMap_def
        exists_def blankIPSet_def AddToSet_def AddToSet_entry_def metricsInc_def
        example_addresses example_address hashSetNamed_def memberIPs_def)

lemma GetIPs_permutation:
  assumes h: "list_all (hashSetNamed x st) setNames" and p: "mset perm = mset setNames"
  shows "GetIPsFromSelectorIPSets x st perm = GetIPsFromSelectorIPSets x st setNames"
proof (cases "setNames = []")
  case True
  with p show ?thesis by simp
next
  case False
  have s: "set perm = set setNames"
    using p by (rule mset_eq_setD)
  have ne: "perm \<noteq> []"
    using False p by auto
  have hp: "list_all (hashSetNamed x st) perm"
    using h s by (simp add: list_all_iff)
  show ?thesis
    by (simp add: GetIPs_hash [OF h False] GetIPs_hash [OF hp ne] s)
qed

lemma scenario_result:
  "\<exists>st. selectorScenario = Return None st \<and>
     GetIPsFromSelectorIPSets stdExternals st [''setNs1'', ''setpod1'', ''setpod2'', ''setpod3''] =
       Inr {''10.0.0.1'', ''10.0.0.2''}"
proof -
  from scenario_facts obtain st1 where all:
    "selectorScenario = Return None st1 \<and>
     list_all (hashSetNamed stdExternals st1) [''setNs1'', ''setpod1'', ''setpod2'', ''setpod3''] \<and>
     memberIPs st1 ''setNs1'' = {''10.0.0.3'', ''10.0.0.2'', ''10.0.0.1''} \<and>
     memberIPs st1 ''setpod1'' = {''10.0.0.2'', ''10.0.0.1''} \<and>
     memberIPs st1 ''setpod2'' = {''10.0.0.3'', ''10.0.0.2'', ''10.0.0.1''} \<and>
     memberIPs st1 ''setpod3'' = {''10.0.0.3'', ''10.0.0.2'', ''10.0.0.1''}" ..
  note sc = all [THEN conjunct1]
  note hs = all [THEN conjunct2, THEN conjunct1]
  note m = all [THEN conjunct2, THEN conjunct2, THEN conjunct1]
    all [THEN conjunct2, THEN conjunct2, THEN conjunct2, THEN conjunct1]
    all [THEN conjunct2, THEN conjunct2, THEN conjunct2, THEN conjunct2, THEN conjunct1]
    all [THEN conjunct2, THEN conjunct2, THEN conjunct2, THEN conjunct2, THEN conjunct2]
  have ne: "[''setNs1'', ''setpod1'', ''setpod2'', ''setpod3''] \<noteq> []"
    by simp
  have i: "(\<Inter>n\<in>set [''setNs1'', ''setpod1'', ''setpod2'', ''setpod3'']. memberIPs st1 n) =
      {''10.0.0.2'', ''10.0.0.1''}"
    by (simp add: m)
  have c: "{''10.0.0.2'', ''10.0.0.1''} = {''10.0.0.1'', ''10.0.0.2''}"
    by (rule insert_commute)
  have "GetIPsFromSelectorIPSets stdExternals st1 [''setNs1'', ''setpod1'', ''setpod2'', ''setpod3''] =
      Inr {''10.0.0.1'', ''10.0.0.2''}"
    unfolding GetIPs_hash [OF hs ne] i c by (rule refl)
  with sc show ?thesis
    by (intro exI conjI)
qed

subsection \<open>Claims\<close>

text \<open>
  C4: for a sequence of names that are all hash sets in the set cache,
  GetIPsFromSelectorIPSets returns the intersection of the IP memberships of the named
  sets (for a sequence that is not empty; for no names the result is the empty set), and
  any permutation of the sequence gives the same result. After the steps of
  TestGetIPsFromSelectorIPSets the result for setNs1, setpod1, setpod2, setpod3 is
  exactly 10.0.0.1 and 10.0.0.2.
\<close>

theorem GetIPsFromSelectorIPSets_intersection:
  "(list_all (hashSetNamed x st) setNames \<longrightarrow>
      (setNames \<noteq> [] \<longrightarrow>
         GetIPsFromSelectorIPSets x st setNames = Inr (\<Inter>n\<in>set setNames. memberIPs st n)) \<and>
      (\<forall>perm. mset perm = mset setNames \<longrightarrow>
         GetIPsFromSelectorIPSets x st perm = GetIPsFromSelectorIPSets x st setNames)) \<and>
   (\<exists>st1. selectorScenario = Return None st1 \<and>
      GetIPsFromSelectorIPSets stdExternals st1 [''setNs1'', ''setpod1'', ''setpod2'', ''setpod3''] =
        Inr {''10.0.0.1'', ''10.0.0.2''})"
proof (intro conjI impI allI)
  assume "list_all (hashSetNamed x st) setNames" and "setNames \<noteq> []"
  then show "GetIPsFromSelectorIPSets x st setNames = Inr (\<Inter>n\<in>set setNames. memberIPs st n)"
    by (rule GetIPs_hash)
next
  fix perm
  assume "list_all (hashSetNamed x st) setNames" and "mset perm = mset setNames"
  then show "GetIPsFromSelectorIPSets x st perm = GetIPsFromSelectorIPSets x st setNames"
    by (rule GetIPs_permutation)
next
  show "\<exists>st1. selectorScenario = Return None st1 \<and>
      GetIPsFromSelectorIPSets stdExternals st1 [''setNs1'', ''setpod1'', ''setpod2'', ''setpod3''] =
        Inr {''10.0.0.1'', ''10.0.0.2''}"
    by (rule scenario_result)
qed

theorem GetIPsFromSelectorIPSets_intersection_witness:
  "\<exists>st. selectorScenario = Return None st \<and>
     list_all (hashSetNamed stdExternals st) [''setNs1'', ''setpod1'', ''setpod2'', ''setpod3''] \<and>
     mset [''setpod3'', ''setNs1'', ''setpod2'', ''setpod1''] =
       mset [''setNs1'', ''setpod1'', ''setpod2'', ''setpod3''] \<and>
     GetIPsFromSelectorIPSets stdExternals st [''setpod3'', ''setNs1'', ''setpod2'', ''setpod1''] =
       GetIPsFromSelectorIPSets stdExternals st [''setNs1'', ''setpod1'', ''setpod2'', ''setpod3''] \<and>
     GetIPsFromSelectorIPSets stdExternals st [''setNs1'', ''setpod1'', ''setpod2'', ''setpod3''] =
       Inr (\<Inter>n\<in>set [''setNs1'', ''setpod1'', ''setpod2'', ''setpod3'']. memberIPs st n)"
proof -
  let ?names = "[''setNs1'', ''setpod1'', ''setpod2'', ''setpod3'']"
  let ?perm = "[''setpod3'', ''setNs1'', ''setpod2'', ''setpod1'']"
  from scenario_facts obtain st where all:
    "selectorScenario = Return None st \<and>
     list_all (hashSetNamed stdExternals st) ?names \<and>
     memberIPs st ''setNs1'' = {''10.0.0.3'', ''10.0.0.2'', ''10.0.0.1''} \<and>
     memberIPs st ''setpod1'' = {''10.0.0.2'', ''10.0.0.1''} \<and>
     memberIPs st ''setpod2'' = {''10.0.0.3'', ''10.0.0.2'', ''10.0.0.1''} \<and>
     memberIPs st ''setpod3'' = {''10.0.0.3'', ''10.0.0.2'', ''10.0.0.1''}" ..
  note sc = all [THEN conjunct1]
  note hs = all [THEN conjunct2, THEN conjunct1]
  note t = GetIPsFromSelectorIPSets_intersection [of stdExternals st ?names,
      THEN conjunct1, THEN mp, OF hs]
  have ne: "?names \<noteq> []"
    by simp
  have p: "mset ?perm = mset ?names"
    by (simp add: add_mset_commute)
  have r1: "GetIPsFromSelectorIPSets stdExternals st ?names =
      Inr (\<Inter>n\<in>set ?names. memberIPs st n)"
    by (rule t [THEN conjunct1, THEN mp, OF ne])
  have r2: "GetIPsFromSelectorIPSets stdExternals st ?perm =
      GetIPsFromSelectorIPSets stdExternals st ?names"
    by (rule t [THEN conjunct2, THEN spec, THEN mp, OF p])
  from sc hs p r2 r1 show ?thesis
    by (intro exI conjI)
qed

section \<open>Properties of the PolicyManager and the DataPlane\<close>

lemma PolicyManager_AddPolicy_exists:
  "PolicyManager_AddPolicy pf pMgr p = (None, pm) \<Longrightarrow>
   PolicyExists pm (NPMNetworkPolicy.Name p)"
  by (auto simp: PolicyManager_AddPolicy_def PolicyExists_def split: prod.splits option.splits)

lemma DataPlane_UpdatePolicy_frame:
  "ipsetMgr (snd (DataPlane_UpdatePolicy pf dp p)) = ipsetMgr dp \<and>
   policyMap (policyMgr (snd (DataPlane_UpdatePolicy pf dp p))) = policyMap (policyMgr dp)"
  by (simp add: DataPlane_UpdatePolicy_def PolicyManager_UpdatePolicy_def
      split: prod.splits option.splits)

lemma DataPlane_AddPolicy_then_exists:
  assumes "DataPlane_AddPolicy api pf dp p = (None, dp1)"
  shows "PolicyExists (policyMgr dp1) (NPMNetworkPolicy.Name p)"
proof (cases "PolicyExists (policyMgr dp) (NPMNetworkPolicy.Name p)")
  case True
  then have "DataPlane_UpdatePolicy pf dp p = (None, dp1)"
    using assms by (simp add: DataPlane_AddPolicy_def)
  then have "policyMap (policyMgr dp1) = policyMap (policyMgr dp)"
    using DataPlane_UpdatePolicy_frame [of pf dp p] by simp
  then show ?thesis
    using True by (simp add: PolicyExists_def)
next
  case False
  then obtain i2 pm where pm: "PolicyManager_AddPolicy pf (policyMgr dp)
      (p\<lparr>PodEndpoints := Map.empty\<rparr>) = (None, pm)"
    and dp1: "dp1 = dp\<lparr>ipsetMgr := i2, policyMgr := pm\<rparr>"
    using assms
    by (auto simp: DataPlane_AddPolicy_def getEndpointsToApplyPolicy_def
        split: prod.splits option.splits)
  from PolicyManager_AddPolicy_exists [OF pm] dp1 show ?thesis
    by simp
qed

subsection \<open>Claims\<close>

text \<open>
  C2: when the backend call inside PolicyManager.AddPolicy (or RemovePolicy) returns an
  error, that same error is returned and the policy cache is the one before the call;
  when it succeeds, the policy is cached under its name (or evicted). So the cache
  differs after a call only if the backend call returned success.
\<close>

theorem PolicyManager_cache_follows_backend:
  "(\<forall>err b. addPolicy pf (backend pMgr) p = (Some err, b) \<longrightarrow>
      PolicyManager_AddPolicy pf pMgr p = (Some err, pMgr\<lparr>backend := b\<rparr>) \<and>
      policyMap (snd (PolicyManager_AddPolicy pf pMgr p)) = policyMap pMgr) \<and>
   (\<forall>err b. removePolicy pf (backend pMgr) n = (Some err, b) \<longrightarrow>
      PolicyManager_RemovePolicy pf pMgr n = (Some err, pMgr\<lparr>backend := b\<rparr>) \<and>
      policyMap (snd (PolicyManager_RemovePolicy pf pMgr n)) = policyMap pMgr) \<and>
   (\<forall>b. addPolicy pf (backend pMgr) p = (None, b) \<longrightarrow>
      fst (PolicyManager_AddPolicy pf pMgr p) = None \<and>
      PolicyMap.cache (policyMap (snd (PolicyManager_AddPolicy pf pMgr p))) =
        (PolicyMap.cache (policyMap pMgr))(NPMNetworkPolicy.Name p \<mapsto> p)) \<and>
   (\<forall>b. removePolicy pf (backend pMgr) n = (None, b) \<longrightarrow>
      fst (PolicyManager_RemovePolicy pf pMgr n) = None \<and>
      PolicyMap.cache (policyMap (snd (PolicyManager_RemovePolicy pf pMgr n))) =
        (PolicyMap.cache (policyMap pMgr))(n := None)) \<and>
   (policyMap (snd (PolicyManager_AddPolicy pf pMgr p)) \<noteq> policyMap pMgr \<longrightarrow>
      fst (addPolicy pf (backend pMgr) p) = None) \<and>
   (policyMap (snd (PolicyManager_RemovePolicy pf pMgr n)) \<noteq> policyMap pMgr \<longrightarrow>
      fst (removePolicy pf (backend pMgr) n) = None)"
  by (auto simp: PolicyManager_AddPolicy_def PolicyManager_RemovePolicy_def
      split: prod.splits option.splits)

theorem PolicyManager_cache_follows_backend_witness:
  "addPolicy scripted [Some (BackendError ''timeout'')] demoPolicy =
     (Some (BackendError ''timeout''), []) \<and>
   PolicyManager_AddPolicy scripted (NewPolicyManager [Some (BackendError ''timeout'')]) demoPolicy =
     (Some (BackendError ''timeout''), NewPolicyManager []) \<and>
   removePolicy scripted [Some (BackendError ''timeout'')] ''allow-web'' =
     (Some (BackendError ''timeout''), []) \<and>
   PolicyManager_RemovePolicy scripted
       (NewPolicyManager [Some (BackendError ''timeout'')]) ''allow-web'' =
     (Some (BackendError ''timeout''), NewPolicyManager []) \<and>
   addPolicy scripted [] demoPolicy = (None, []) \<and>
   PolicyMap.cache (policyMap (snd (PolicyManager_AddPolicy scripted (NewPolicyManager []) demoPolicy)))
     ''allow-web'' = Some demoPolicy"
proof -
  let ?bad = "NewPolicyManager [Some (BackendError ''timeout'')]"
  let ?ok = "NewPolicyManager ([] :: error option list)"
  have a: "addPolicy scripted (backend ?bad) demoPolicy = (Some (BackendError ''timeout''), [])"
    by (simp add: scripted_def nextAnswer_def NewPolicyManager_def)
  have r: "removePolicy scripted (backend ?bad) ''allow-web'' = (Some (BackendError ''timeout''), [])"
    by (simp add: scripted_def nextAnswer_def NewPolicyManager_def)
  have s: "addPolicy scripted (backend ?ok) demoPolicy = (None, [])"
    by (simp add: scripted_def nextAnswer_def NewPolicyManager_def)
  have b: "backend ?bad = [Some (BackendError ''timeout'')]" "backend ?ok = []"
    "?bad\<lparr>backend := []\<rparr> = ?ok"
    by (simp_all add: NewPolicyManager_def)
  have n: "NPMNetworkPolicy.Name demoPolicy = ''allow-web''"
    by (simp add: demoPolicy_def)
  note t1 = PolicyManager_cache_follows_backend [of scripted ?bad demoPolicy "''allow-web''"]
  note t2 = PolicyManager_cache_follows_backend [of scripted ?ok demoPolicy "''allow-web''"]
  have 1: "PolicyManager_AddPolicy scripted ?bad demoPolicy = (Some (BackendError ''timeout''), ?ok)"
    using t1 a b by auto
  have 2: "PolicyManager_RemovePolicy scripted ?bad ''allow-web'' = (Some (BackendError ''timeout''), ?ok)"
    using t1 r b by auto
  have 3: "PolicyMap.cache (policyMap (snd (PolicyManager_AddPolicy scripted ?ok demoPolicy)))
     ''allow-web'' = Some demoPolicy"
    using t2 s n by auto
  from a r s 1 2 3 b show ?thesis
    by simp
qed

text \<open>
  C3: when the policy's name is in the policy cache, DataPlane.AddPolicy is
  DataPlane.UpdatePolicy, which hands the policy to PolicyManager.UpdatePolicy and so to
  the backend's update: the result is nil when that update succeeds and its error,
  wrapped as "error while updating policy", when it fails, and the policy manager after
  the call is the one PolicyManager.UpdatePolicy leaves. None of the set operations is
  called, so the manager of the sets, with every reference it holds, is the one before
  the call, and so is the policy cache. And after an AddPolicy that returned no error the
  name is in the cache, so a second AddPolicy of the same policy takes that path.
\<close>

theorem DataPlane_AddPolicy_existing_is_update:
  "(PolicyExists (policyMgr dp) (NPMNetworkPolicy.Name p) \<longrightarrow>
      DataPlane_AddPolicy api pf dp p = DataPlane_UpdatePolicy pf dp p \<and>
      policyMgr (snd (DataPlane_AddPolicy api pf dp p)) =
        snd (PolicyManager_UpdatePolicy pf (policyMgr dp) p) \<and>
      fst (PolicyManager_UpdatePolicy pf (policyMgr dp) p) =
        fst (updatePolicy pf (backend (policyMgr dp)) p) \<and>
      (\<forall>err b. updatePolicy pf (backend (policyMgr dp)) p = (Some err, b) \<longrightarrow>
         DataPlane_AddPolicy api pf dp p =
           (Some (Wrap ''[DataPlane] error while updating policy: '' err),
            dp\<lparr>policyMgr := (policyMgr dp)\<lparr>backend := b\<rparr>\<rparr>)) \<and>
      (\<forall>b. updatePolicy pf (backend (policyMgr dp)) p = (None, b) \<longrightarrow>
         DataPlane_AddPolicy api pf dp p =
           (None, dp\<lparr>policyMgr := (policyMgr dp)\<lparr>backend := b\<rparr>\<rparr>)) \<and>
      ipsetMgr (snd (DataPlane_AddPolicy api pf dp p)) = ipsetMgr dp \<and>
      policyMap (policyMgr (snd (DataPlane_AddPolicy api pf dp p))) = policyMap (policyMgr dp)) \<and>
   (\<forall>dp1. DataPlane_AddPolicy api pf dp p = (None, dp1) \<longrightarrow>
      PolicyExists (policyMgr dp1) (NPMNetworkPolicy.Name p) \<and>
      DataPlane_AddPolicy api pf dp1 p = DataPlane_UpdatePolicy pf dp1 p \<and>
      policyMgr (snd (DataPlane_AddPolicy api pf dp1 p)) =
        snd (PolicyManager_UpdatePolicy pf (policyMgr dp1) p) \<and>
      ipsetMgr (snd (DataPlane_AddPolicy api pf dp1 p)) = ipsetMgr dp1)"
proof -
  have upd: "DataPlane_AddPolicy api pf d p = DataPlane_UpdatePolicy pf d p \<and>
      policyMgr (snd (DataPlane_AddPolicy api pf d p)) =
        snd (PolicyManager_UpdatePolicy pf (policyMgr d) p) \<and>
      fst (PolicyManager_UpdatePolicy pf (policyMgr d) p) =
        fst (updatePolicy pf (backend (policyMgr d)) p) \<and>
      (\<forall>err b. updatePolicy pf (backend (policyMgr d)) p = (Some err, b) \<longrightarrow>
         DataPlane_AddPolicy api pf d p =
           (Some (Wrap ''[DataPlane] error while updating policy: '' err),
            d\<lparr>policyMgr := (policyMgr d)\<lparr>backend := b\<rparr>\<rparr>)) \<and>
      (\<forall>b. updatePolicy pf (backend (policyMgr d)) p = (None, b) \<longrightarrow>
         DataPlane_AddPolicy api pf d p =
           (None, d\<lparr>policyMgr := (policyMgr d)\<lparr>backend := b\<rparr>\<rparr>)) \<and>
      ipsetMgr (snd (DataPlane_AddPolicy api pf d p)) = ipsetMgr d \<and>
      policyMap (policyMgr (snd (DataPlane_AddPolicy api pf d p))) = policyMap (policyMgr d)"
    if ex: "PolicyExists (policyMgr d) (NPMNetworkPolicy.Name p)" for d
  proof -
    have 1: "DataPlane_AddPolicy api pf d p = DataPlane_UpdatePolicy pf d p"
      using ex by (simp add: DataPlane_AddPolicy_def)
    have 2: "policyMgr (snd (DataPlane_UpdatePolicy pf d p)) =
        snd (PolicyManager_UpdatePolicy pf (policyMgr d) p)"
      by (simp add: DataPlane_UpdatePolicy_def split: prod.splits option.splits)
    have 3: "fst (PolicyManager_UpdatePolicy pf (policyMgr d) p) =
        fst (updatePolicy pf (backend (policyMgr d)) p)"
      by (simp add: PolicyManager_UpdatePolicy_def split: prod.splits option.splits)
    have 4: "DataPlane_UpdatePolicy pf d p =
           (Some (Wrap ''[DataPlane] error while updating policy: '' err),
            d\<lparr>policyMgr := (policyMgr d)\<lparr>backend := b\<rparr>\<rparr>)"
      if "updatePolicy pf (backend (policyMgr d)) p = (Some err, b)" for err b
      using that by (simp add: DataPlane_UpdatePolicy_def PolicyManager_UpdatePolicy_def)
    have 5: "DataPlane_UpdatePolicy pf d p =
           (None, d\<lparr>policyMgr := (policyMgr d)\<lparr>backend := b\<rparr>\<rparr>)"
      if "updatePolicy pf (backend (policyMgr d)) p = (None, b)" for b
      using that by (simp add: DataPlane_UpdatePolicy_def PolicyManager_UpdatePolicy_def)
    note f = DataPlane_UpdatePolicy_frame [of pf d p]
    show ?thesis
      unfolding 1
    proof (intro conjI allI impI)
      show "DataPlane_UpdatePolicy pf d p = DataPlane_UpdatePolicy pf d p"
        by (rule refl)
      show "policyMgr (snd (DataPlane_UpdatePolicy pf d p)) =
          snd (PolicyManager_UpdatePolicy pf (policyMgr d) p)"
        by (rule 2)
      show "fst (PolicyManager_UpdatePolicy pf (policyMgr d) p) =
          fst (updatePolicy pf (backend (policyMgr d)) p)"
        by (rule 3)
      show "ipsetMgr (snd (DataPlane_UpdatePolicy pf d p)) = ipsetMgr d"
        by (rule f [THEN conjunct1])
      show "policyMap (policyMgr (snd (DataPlane_UpdatePolicy pf d p))) = policyMap (policyMgr d)"
        by (rule f [THEN conjunct2])
      show "DataPlane_UpdatePolicy pf d p =
           (Some (Wrap ''[DataPlane] error while updating policy: '' err),
            d\<lparr>policyMgr := (policyMgr d)\<lparr>backend := b\<rparr>\<rparr>)"
        if "updatePolicy pf (backend (policyMgr d)) p = (Some err, b)" for err b
        by (rule 4 [OF that])
      show "DataPlane_UpdatePolicy pf d p =
           (None, d\<lparr>policyMgr := (policyMgr d)\<lparr>backend := b\<rparr>\<rparr>)"
        if "updatePolicy pf (backend (policyMgr d)) p = (None, b)" for b
        by (rule 5 [OF that])
    qed
  qed
  have again: "PolicyExists (policyMgr dp1) (NPMNetworkPolicy.Name p) \<and>
      DataPlane_AddPolicy api pf dp1 p = DataPlane_UpdatePolicy pf dp1 p \<and>
      policyMgr (snd (DataPlane_AddPolicy api pf dp1 p)) =
        snd (PolicyManager_UpdatePolicy pf (policyMgr dp1) p) \<and>
      ipsetMgr (snd (DataPlane_AddPolicy api pf dp1 p)) = ipsetMgr dp1"
    if "DataPlane_AddPolicy api pf dp p = (None, dp1)" for dp1
  proof -
    note e = DataPlane_AddPolicy_then_exists [OF that]
    note u = upd [OF e]
    show ?thesis
    proof (intro conjI)
      show "PolicyExists (policyMgr dp1) (NPMNetworkPolicy.Name p)"
        by (rule e)
      show "DataPlane_AddPolicy api pf dp1 p = DataPlane_UpdatePolicy pf dp1 p"
        by (rule u [THEN conjunct1])
      show "policyMgr (snd (DataPlane_AddPolicy api pf dp1 p)) =
          snd (PolicyManager_UpdatePolicy pf (policyMgr dp1) p)"
        by (rule u [THEN conjunct2, THEN conjunct1])
      show "ipsetMgr (snd (DataPlane_AddPolicy api pf dp1 p)) = ipsetMgr dp1"
        by (rule u [THEN conjunct2, THEN conjunct2, THEN conjunct2, THEN conjunct2,
              THEN conjunct2, THEN conjunct1])
    qed
  qed
  show ?thesis
  proof (intro conjI impI allI)
    assume "PolicyExists (policyMgr dp) (NPMNetworkPolicy.Name p)"
    note u = upd [OF this]
    show "DataPlane_AddPolicy api pf dp p = DataPlane_UpdatePolicy pf dp p"
      by (rule u [THEN conjunct1])
    show "policyMgr (snd (DataPlane_AddPolicy api pf dp p)) =
        snd (PolicyManager_UpdatePolicy pf (policyMgr dp) p)"
      by (rule u [THEN conjunct2, THEN conjunct1])
    show "fst (PolicyManager_UpdatePolicy pf (policyMgr dp) p) =
        fst (updatePolicy pf (backend (policyMgr dp)) p)"
      by (rule u [THEN conjunct2, THEN conjunct2, THEN conjunct1])
    show "ipsetMgr (snd (DataPlane_AddPolicy api pf dp p)) = ipsetMgr dp"
      by (rule u [THEN conjunct2, THEN conjunct2, THEN conjunct2, THEN conjunct2, THEN conjunct2, THEN conjunct1])
    show "policyMap (policyMgr (snd (DataPlane_AddPolicy api pf dp p))) = policyMap (policyMgr dp)"
      by (rule u [THEN conjunct2, THEN conjunct2, THEN conjunct2, THEN conjunct2, THEN conjunct2, THEN conjunct2])
    show "DataPlane_AddPolicy api pf dp p =
           (Some (Wrap ''[DataPlane] error while updating policy: '' err),
            dp\<lparr>policyMgr := (policyMgr dp)\<lparr>backend := b\<rparr>\<rparr>)"
      if "updatePolicy pf (backend (policyMgr dp)) p = (Some err, b)" for err b
      by (rule u [THEN conjunct2, THEN conjunct2, THEN conjunct2, THEN conjunct1, THEN spec, THEN spec, THEN mp, OF that])
    show "DataPlane_AddPolicy api pf dp p =
           (None, dp\<lparr>policyMgr := (policyMgr dp)\<lparr>backend := b\<rparr>\<rparr>)"
      if "updatePolicy pf (backend (policyMgr dp)) p = (None, b)" for b
      by (rule u [THEN conjunct2, THEN conjunct2, THEN conjunct2, THEN conjunct2, THEN conjunct1, THEN spec, THEN mp, OF that])
  next
    fix dp1
    assume a: "DataPlane_AddPolicy api pf dp p = (None, dp1)"
    note g = again [OF a]
    show "PolicyExists (policyMgr dp1) (NPMNetworkPolicy.Name p)"
      by (rule g [THEN conjunct1])
    show "DataPlane_AddPolicy api pf dp1 p = DataPlane_UpdatePolicy pf dp1 p"
      by (rule g [THEN conjunct2, THEN conjunct1])
    show "policyMgr (snd (DataPlane_AddPolicy api pf dp1 p)) =
        snd (PolicyManager_UpdatePolicy pf (policyMgr dp1) p)"
      by (rule g [THEN conjunct2, THEN conjunct2, THEN conjunct1])
    show "ipsetMgr (snd (DataPlane_AddPolicy api pf dp1 p)) = ipsetMgr dp1"
      by (rule g [THEN conjunct2, THEN conjunct2, THEN conjunct2])
  qed
qed

theorem DataPlane_AddPolicy_existing_is_update_witness:
  "\<exists>dp1 dp2.
     DataPlane_AddPolicy trackerAPI scripted
       (NewDataPlane Map.empty [None, Some (BackendError ''timeout'')] ''node-1'') demoPolicy =
       (None, dp1) \<and>
     PolicyExists (policyMgr dp1) ''allow-web'' \<and>
     updatePolicy scripted (backend (policyMgr dp1)) demoPolicy =
       (Some (BackendError ''timeout''), []) \<and>
     DataPlane_AddPolicy trackerAPI scripted dp1 demoPolicy =
       (Some (Wrap ''[DataPlane] error while updating policy: '' (BackendError ''timeout'')), dp2) \<and>
     dp2 = dp1\<lparr>policyMgr := (policyMgr dp1)\<lparr>backend := []\<rparr>\<rparr> \<and>
     map_option tsReferences (ipsetMgr dp2 ''ns-prod'') = Some [(''allow-web'', SelectorType)] \<and>
     map_option tsReferences (ipsetMgr dp2 ''app-web'') = Some [(''allow-web'', NetPolType)] \<and>
     updatePolicy scripted (backend (policyMgr dp2)) demoPolicy = (None, []) \<and>
     DataPlane_AddPolicy trackerAPI scripted dp2 demoPolicy = (None, dp2)"
proof -
  let ?dp = "NewDataPlane (Map.empty :: tracker) [None, Some (BackendError ''timeout'')] ''node-1''"
  let ?i = "[''ns-prod'' \<mapsto> \<lparr>tsType = NameSpace, tsReferences = [(''allow-web'', SelectorType)],
                tsMembers = []\<rparr>,
             ''app-web'' \<mapsto> \<lparr>tsType = KeyValueLabelOfPod,
                tsReferences = [(''allow-web'', NetPolType)], tsMembers = []\<rparr>]"
  let ?dp1 = "?dp\<lparr>ipsetMgr := ?i,
     policyMgr := \<lparr>policyMap = \<lparr>PolicyMap.cache = [''allow-web'' \<mapsto> demoPolicy]\<rparr>,
                   backend = [Some (BackendError ''timeout'')]\<rparr>\<rparr>"
  let ?dp2 = "?dp1\<lparr>policyMgr := (policyMgr ?dp1)\<lparr>backend := []\<rparr>\<rparr>"
  have n: "NPMNetworkPolicy.Name demoPolicy = ''allow-web''"
    by (simp add: demoPolicy_def)
  have e: "demoPolicy\<lparr>PodEndpoints := Map.empty\<rparr> = demoPolicy"
    by (simp add: demoPolicy_def)
  have s1: "addIPSetReferences trackerAPI Map.empty (PodSelectorIPSets demoPolicy)
      ''allow-web'' SelectorType =
      (None, [''ns-prod'' \<mapsto> \<lparr>tsType = NameSpace,
         tsReferences = [(''allow-web'', SelectorType)], tsMembers = []\<rparr>])"
    by (simp add: addIPSetReferences_def trackerAPI_def demoPolicy_def)
  have s2: "addIPSetReferences trackerAPI
      [''ns-prod'' \<mapsto> \<lparr>tsType = NameSpace,
         tsReferences = [(''allow-web'', SelectorType)], tsMembers = []\<rparr>]
      (RuleIPSets demoPolicy) ''allow-web'' NetPolType = (None, ?i)"
    by (simp add: addIPSetReferences_def trackerAPI_def demoPolicy_def)
  have first: "DataPlane_AddPolicy trackerAPI scripted ?dp demoPolicy = (None, ?dp1)"
    by (simp add: DataPlane_AddPolicy_def n e s1 s2 PolicyExists_def NewDataPlane_def
        NewPolicyManager_def getEndpointsToApplyPolicy_def PolicyManager_AddPolicy_def
        scripted_def nextAnswer_def)
  have ex1: "PolicyExists (policyMgr ?dp1) (NPMNetworkPolicy.Name demoPolicy)"
    by (rule DataPlane_AddPolicy_existing_is_update [of ?dp demoPolicy trackerAPI scripted,
          THEN conjunct2, THEN spec, THEN mp, OF first, THEN conjunct1])
  have u1: "updatePolicy scripted (backend (policyMgr ?dp1)) demoPolicy =
      (Some (BackendError ''timeout''), [])"
    by (simp add: scripted_def nextAnswer_def)
  note t1 = DataPlane_AddPolicy_existing_is_update [of ?dp1 demoPolicy trackerAPI scripted,
      THEN conjunct1, THEN mp, OF ex1]
  have second: "DataPlane_AddPolicy trackerAPI scripted ?dp1 demoPolicy =
      (Some (Wrap ''[DataPlane] error while updating policy: '' (BackendError ''timeout'')), ?dp2)"
    by (rule t1 [THEN conjunct2, THEN conjunct2, THEN conjunct2, THEN conjunct1,
          THEN spec, THEN spec, THEN mp, OF u1])
  have ex2: "PolicyExists (policyMgr ?dp2) (NPMNetworkPolicy.Name demoPolicy)"
    by (simp add: PolicyExists_def n)
  have u2: "updatePolicy scripted (backend (policyMgr ?dp2)) demoPolicy = (None, [])"
    by (simp add: scripted_def nextAnswer_def)
  note t2 = DataPlane_AddPolicy_existing_is_update [of ?dp2 demoPolicy trackerAPI scripted,
      THEN conjunct1, THEN mp, OF ex2]
  have "DataPlane_AddPolicy trackerAPI scripted ?dp2 demoPolicy =
      (None, ?dp2\<lparr>policyMgr := (policyMgr ?dp2)\<lparr>backend := []\<rparr>\<rparr>)"
    by (rule t2 [THEN conjunct2, THEN conjunct2, THEN conjunct2, THEN conjunct2, THEN conjunct1,
          THEN spec, THEN mp, OF u2])
  then have third: "DataPlane_AddPolicy trackerAPI scripted ?dp2 demoPolicy = (None, ?dp2)"
    by simp
  have ex: "PolicyExists (policyMgr ?dp1) ''allow-web''"
    using ex1 by (simp only: n)
  have r1: "map_option tsReferences (ipsetMgr ?dp2 ''ns-prod'') = Some [(''allow-web'', SelectorType)]"
    by simp
  have r2: "map_option tsReferences (ipsetMgr ?dp2 ''app-web'') = Some [(''allow-web'', NetPolType)]"
    by simp
  have d: "?dp2 = ?dp1\<lparr>policyMgr := (policyMgr ?dp1)\<lparr>backend := []\<rparr>\<rparr>"
    by (rule refl)
  from first ex u1 second d r1 r2 u2 third show ?thesis
    by (intro exI conjI)
qed

text \<open>
  C10: for a name that the policy cache does not hold, DataPlane.RemovePolicy returns no
  error and the data plane (policy cache, manager of the sets with their references,
  backend, endpoint cache) is the one before the call.
\<close>

theorem DataPlane_RemovePolicy_absent:
  assumes "\<not> PolicyExists (policyMgr dp) policyName"
  shows "DataPlane_RemovePolicy api pf dp policyName = (None, dp)"
  using assms by (simp add: DataPlane_RemovePolicy_def GetPolicy_def PolicyExists_def)

theorem DataPlane_RemovePolicy_absent_witness:
  "\<not> PolicyExists (policyMgr (NewDataPlane (Map.empty :: tracker) [Some (BackendError ''down'')]
        ''node-1'')) ''allow-web'' \<and>
   DataPlane_RemovePolicy trackerAPI scripted
     (NewDataPlane Map.empty [Some (BackendError ''down'')] ''node-1'') ''allow-web'' =
     (None, NewDataPlane Map.empty [Some (BackendError ''down'')] ''node-1'')"
proof -
  have h: "\<not> PolicyExists (policyMgr (NewDataPlane (Map.empty :: tracker)
       [Some (BackendError ''down'')] ''node-1'')) ''allow-web''"
    by (simp add: PolicyExists_def NewDataPlane_def NewPolicyManager_def)
  from DataPlane_RemovePolicy_absent [OF h, of trackerAPI scripted] h show ?thesis
    by simp
qed

end
